theory Spec2Isabelle
  imports Main "HOL-Library.Word"
begin

unbundle bit_operations_syntax

section \<open>Data model of the VR4300 pipeline (vr4300/pipeline.c)\<close>

text \<open>
  The structures used by \<^verbatim>\<open>pipeline.c\<close> are declared in headers that are not part of the
  sources at hand (\<^verbatim>\<open>vr4300/pipeline.h\<close>, \<^verbatim>\<open>vr4300/cpu.h\<close>, \<^verbatim>\<open>vr4300/segment.h\<close>,
  \<^verbatim>\<open>vr4300/decoder.h\<close>, \<^verbatim>\<open>vr4300/fault.h\<close>). The records below carry exactly the fields
  that \<^verbatim>\<open>pipeline.c\<close> reads or writes. A field name that occurs in several structures, or
  that clashes with a constant of HOL, carries the name of its structure as a prefix.
\<close>

type_synonym u32 = "32 word"
type_synonym u64 = "64 word"

text \<open>
  Modelled from the spec: \<^verbatim>\<open>enum vr4300_fault_id\<close> of \<^verbatim>\<open>vr4300/fault.h\<close> is missing;
  the spec names the fault kinds \<^verbatim>\<open>IADE, DADE, UNC, LDI, DCB, RST\<close> next to \<^verbatim>\<open>NONE\<close>.
\<close>

datatype vr4300_fault_id =
    VR4300_FAULT_NONE
  | VR4300_FAULT_IADE
  | VR4300_FAULT_DADE
  | VR4300_FAULT_UNC
  | VR4300_FAULT_LDI
  | VR4300_FAULT_DCB
  | VR4300_FAULT_RST

text \<open>
  Modelled from the spec: the request type of \<^verbatim>\<open>struct vr4300_bus_request\<close> is missing;
  the spec gives \<^verbatim>\<open>type: None|Read|Write\<close>.
\<close>

datatype vr4300_bus_request_type =
    VR4300_BUS_REQUEST_NONE
  | VR4300_BUS_REQUEST_READ
  | VR4300_BUS_REQUEST_WRITE

text \<open>\<^verbatim>\<open>struct segment\<close>: the window \<^verbatim>\<open>start\<close>, \<^verbatim>\<open>length\<close>, \<^verbatim>\<open>offset\<close>, \<^verbatim>\<open>cached\<close>.\<close>

record segment =
  seg_start :: u64
  seg_length :: u64
  seg_offset :: u64
  seg_cached :: bool

text \<open>\<^verbatim>\<open>struct vr4300_opcode\<close>: \<^verbatim>\<open>id\<close> and \<^verbatim>\<open>flags\<close>.\<close>

record vr4300_opcode =
  op_id :: u32
  op_flags :: u32

text \<open>\<^verbatim>\<open>struct vr4300_latch\<close>, the \<^verbatim>\<open>common\<close> part of every latch.\<close>

record vr4300_latch =
  pc :: u64
  fault :: vr4300_fault_id

text \<open>
  \<^verbatim>\<open>struct vr4300_bus_request\<close>. \<^verbatim>\<open>word\<close> is the 32-bit bus word that the fix-up code
  casts to \<^verbatim>\<open>uint32_t\<close> and \<^verbatim>\<open>int32_t\<close>; \<^verbatim>\<open>size\<close> is an unsigned count of bytes.
\<close>

record vr4300_bus_request =
  req_type :: vr4300_bus_request_type
  req_address :: u64
  req_word :: u32
  req_size :: u32
  req_dqm :: u32

record vr4300_icrf_latch =
  icrf_common :: vr4300_latch
  icrf_segment :: segment
  icrf_pc :: u64

record vr4300_rfex_latch =
  rfex_common :: vr4300_latch
  opcode :: vr4300_opcode
  iw :: u32
  iw_mask :: u32

record vr4300_exdc_latch =
  exdc_common :: vr4300_latch
  exdc_segment :: segment
  exdc_result :: u64
  exdc_dest :: nat
  request :: vr4300_bus_request

record vr4300_dcwb_latch =
  dcwb_common :: vr4300_latch
  dcwb_result :: u64
  dcwb_dest :: nat

text \<open>
  \<^verbatim>\<open>struct vr4300_pipeline\<close>. The three counters are unsigned 32-bit integers (the spec
  calls \<^verbatim>\<open>cycles_to_stall\<close> a non-negative tick counter), so \<^verbatim>\<open>exception_history++\<close> wraps
  around and the comparisons are unsigned.
\<close>

record vr4300_pipeline =
  dcwb_latch :: vr4300_dcwb_latch
  exdc_latch :: vr4300_exdc_latch
  rfex_latch :: vr4300_rfex_latch
  icrf_latch :: vr4300_icrf_latch
  exception_history :: u32
  cycles_to_stall :: u32
  skip_stages :: u32
  fault_present :: bool

text \<open>
  \<^verbatim>\<open>struct vr4300\<close>. The register file \<^verbatim>\<open>regs\<close> is a store from register index to 64-bit
  value; the bound of the C array (declared in \<^verbatim>\<open>cpu.h\<close>) is not available, so the store
  is total. The bus controller behind the pointer \<^verbatim>\<open>bus\<close> is opaque to the pipeline and is
  a type parameter.
\<close>

record 'b vr4300 =
  regs :: "nat \<Rightarrow> u64"
  pipeline :: vr4300_pipeline
  signals :: u32
  bus :: 'b

text \<open>
  Everything \<^verbatim>\<open>pipeline.c\<close> calls or uses without defining it: the decoder, the segment
  map, the six fault helpers, the opcode handler table, the bus write, the field
  extractors \<^verbatim>\<open>GET_RS\<close>/\<^verbatim>\<open>GET_RT\<close> and the constants of the missing headers. They are
  parameters of every function of the model. A segment pointer that may be \<^verbatim>\<open>NULL\<close> is an
  \<^typ>\<open>segment option\<close>.
\<close>

record 'b externals =
  vr4300_decode_instruction :: "u32 \<Rightarrow> vr4300_opcode"
  get_segment :: "u64 \<Rightarrow> u32 \<Rightarrow> segment option"
  get_default_segment :: segment
  VR4300_IADE :: "'b vr4300 \<Rightarrow> 'b vr4300"
  VR4300_DADE :: "'b vr4300 \<Rightarrow> 'b vr4300"
  VR4300_UNC :: "'b vr4300 \<Rightarrow> 'b vr4300"
  VR4300_LDI :: "'b vr4300 \<Rightarrow> 'b vr4300"
  VR4300_DCB :: "'b vr4300 \<Rightarrow> 'b vr4300"
  VR4300_RST :: "'b vr4300 \<Rightarrow> 'b vr4300"
  vr4300_function_table :: "u32 \<Rightarrow> 'b vr4300 \<Rightarrow> u64 \<Rightarrow> u64 \<Rightarrow> 'b vr4300"
  bus_write_word :: "'b \<Rightarrow> u64 \<Rightarrow> u32 \<Rightarrow> u32 \<Rightarrow> 'b"
  GET_RS :: "u32 \<Rightarrow> nat"
  GET_RT :: "u32 \<Rightarrow> nat"
  OPCODE_INFO_NEEDRS :: u32
  OPCODE_INFO_NEEDRT :: u32
  VR4300_SIGNAL_COLDRESET :: u32
  VR4300_CP0_REGISTER_STATUS :: nat

text \<open>Modelled from the spec: \<^verbatim>\<open>VR4300_REGISTER_R0\<close> of \<^verbatim>\<open>cpu.h\<close> is missing; it is register 0.\<close>

definition VR4300_REGISTER_R0 :: nat where
  "VR4300_REGISTER_R0 = 0"

subsection \<open>The latch pointers of the C functions\<close>

text \<open>
  Each C function starts by taking pointers such as
  \<^verbatim>\<open>icrf_latch = &vr4300->pipeline.icrf_latch\<close>. Reading through such a pointer is one of
  the abbreviations below, writing through it the matching update function.
\<close>

abbreviation icrf :: "'b vr4300 \<Rightarrow> vr4300_icrf_latch" where
  "icrf s \<equiv> icrf_latch (pipeline s)"

abbreviation rfex :: "'b vr4300 \<Rightarrow> vr4300_rfex_latch" where
  "rfex s \<equiv> rfex_latch (pipeline s)"

abbreviation exdc :: "'b vr4300 \<Rightarrow> vr4300_exdc_latch" where
  "exdc s \<equiv> exdc_latch (pipeline s)"

abbreviation dcwb :: "'b vr4300 \<Rightarrow> vr4300_dcwb_latch" where
  "dcwb s \<equiv> dcwb_latch (pipeline s)"

definition upd_icrf :: "(vr4300_icrf_latch \<Rightarrow> vr4300_icrf_latch) \<Rightarrow> 'b vr4300 \<Rightarrow> 'b vr4300" where
  "upd_icrf f s = s\<lparr>pipeline := (pipeline s)\<lparr>icrf_latch := f (icrf s)\<rparr>\<rparr>"

definition upd_rfex :: "(vr4300_rfex_latch \<Rightarrow> vr4300_rfex_latch) \<Rightarrow> 'b vr4300 \<Rightarrow> 'b vr4300" where
  "upd_rfex f s = s\<lparr>pipeline := (pipeline s)\<lparr>rfex_latch := f (rfex s)\<rparr>\<rparr>"

definition upd_exdc :: "(vr4300_exdc_latch \<Rightarrow> vr4300_exdc_latch) \<Rightarrow> 'b vr4300 \<Rightarrow> 'b vr4300" where
  "upd_exdc f s = s\<lparr>pipeline := (pipeline s)\<lparr>exdc_latch := f (exdc s)\<rparr>\<rparr>"

definition upd_dcwb :: "(vr4300_dcwb_latch \<Rightarrow> vr4300_dcwb_latch) \<Rightarrow> 'b vr4300 \<Rightarrow> 'b vr4300" where
  "upd_dcwb f s = s\<lparr>pipeline := (pipeline s)\<lparr>dcwb_latch := f (dcwb s)\<rparr>\<rparr>"

section \<open>The five stages\<close>

text \<open>
  A stage returns the C \<^verbatim>\<open>int\<close> (0 to go on, 1 after a fault helper was called) together
  with the processor state it leaves behind.
\<close>

subsection \<open>\<^verbatim>\<open>vr4300_ic_stage\<close>\<close>

text \<open>
  The segment test \<^verbatim>\<open>(pc - segment->start) > segment->length\<close> is unsigned 64-bit
  arithmetic. The lookup result \<^verbatim>\<open>NULL\<close> leaves through \<^verbatim>\<open>VR4300_IADE\<close>; both other paths
  join at the last three lines of the function.
\<close>

definition vr4300_ic_stage :: "'b externals \<Rightarrow> 'b vr4300 \<Rightarrow> int \<times> 'b vr4300" where
  "vr4300_ic_stage X s =
    (let segment = icrf_segment (icrf s);
         pc0 = icrf_pc (icrf s);
         s1 = upd_icrf (\<lambda>l. l\<lparr>icrf_common := (icrf_common l)\<lparr>pc := pc0\<rparr>\<rparr>) s;
         decode_iw = iw (rfex s1) AND iw_mask (rfex s1);
         s2 = upd_rfex (\<lambda>l. l\<lparr>iw := decode_iw\<rparr>) s1;
         s3 = upd_rfex (\<lambda>l. l\<lparr>opcode := vr4300_decode_instruction X decode_iw\<rparr>) s2;
         s4 = upd_rfex (\<lambda>l. l\<lparr>iw_mask := NOT 0\<rparr>) s3;
         looked_up =
           (if seg_length segment < pc0 - seg_start segment then
              (let cp0_status = (ucast (regs s4 (VR4300_CP0_REGISTER_STATUS X)) :: u32)
               in case get_segment X pc0 cp0_status of
                    None \<Rightarrow> None
                  | Some segment' \<Rightarrow> Some (upd_icrf (\<lambda>l. l\<lparr>icrf_segment := segment'\<rparr>) s4))
            else Some s4)
     in case looked_up of
          None \<Rightarrow> (1, VR4300_IADE X s4)
        | Some s5 \<Rightarrow>
            (let s6 = upd_icrf (\<lambda>l. l\<lparr>icrf_common := (icrf_common l)\<lparr>fault := VR4300_FAULT_NONE\<rparr>\<rparr>) s5;
                 s7 = upd_icrf (\<lambda>l. l\<lparr>icrf_pc := icrf_pc l + 4\<rparr>) s6
             in (0, s7)))"

subsection \<open>\<^verbatim>\<open>vr4300_rf_stage\<close>\<close>

definition vr4300_rf_stage :: "'b externals \<Rightarrow> 'b vr4300 \<Rightarrow> int \<times> 'b vr4300" where
  "vr4300_rf_stage X s =
    (let segment = icrf_segment (icrf s);
         s1 = upd_rfex (\<lambda>l. l\<lparr>rfex_common := icrf_common (icrf s)\<rparr>) s
     in if \<not> seg_cached segment then (1, VR4300_UNC X s1) else (0, s1))"

subsection \<open>\<^verbatim>\<open>vr4300_ex_stage\<close>\<close>

text \<open>
  Lines 102 to 109 of \<^verbatim>\<open>vr4300_ex_stage\<close>: the result waiting in the DC/WB latch is put
  into the register file, \<^verbatim>\<open>regs[R0]\<close> is zeroed, the two source registers are read, and
  the overwritten register gets its old value back. The block yields the two operands
  and the register file it leaves.
\<close>

definition ex_forward :: "'b vr4300 \<Rightarrow> nat \<Rightarrow> nat \<Rightarrow> u64 \<times> u64 \<times> 'b vr4300" where
  "ex_forward s rs rt =
    (let temp = regs s (dcwb_dest (dcwb s));
         s1 = s\<lparr>regs := (regs s)(dcwb_dest (dcwb s) := dcwb_result (dcwb s))\<rparr>;
         s2 = s1\<lparr>regs := (regs s1)(VR4300_REGISTER_R0 := 0)\<rparr>;
         rs_reg = regs s2 rs;
         rt_reg = regs s2 rt;
         s3 = s2\<lparr>regs := (regs s2)(dcwb_dest (dcwb s2) := temp)\<rparr>
     in (rs_reg, rt_reg, s3))"

definition vr4300_ex_stage :: "'b externals \<Rightarrow> 'b vr4300 \<Rightarrow> int \<times> 'b vr4300" where
  "vr4300_ex_stage X s =
    (let s1 = upd_exdc (\<lambda>l. l\<lparr>exdc_common := rfex_common (rfex s)\<rparr>) s;
         flags0 = op_flags (opcode (rfex s1));
         flags = (if req_type (request (exdc s1)) = VR4300_BUS_REQUEST_NONE
                  then flags0 AND NOT (OPCODE_INFO_NEEDRS X OR OPCODE_INFO_NEEDRT X)
                  else flags0);
         iw0 = iw (rfex s1);
         rt = GET_RT X iw0;
         rs = GET_RS X iw0
     in if (dcwb_dest (dcwb s1) = rs \<and> flags AND OPCODE_INFO_NEEDRS X \<noteq> 0) \<or>
           (dcwb_dest (dcwb s1) = rt \<and> flags AND OPCODE_INFO_NEEDRT X \<noteq> 0)
        then (1, VR4300_LDI X s1)
        else
          (case ex_forward s1 (GET_RS X iw0) (GET_RT X iw0) of
             (rs_reg, rt_reg, s2) \<Rightarrow>
               (let s3 = upd_exdc (\<lambda>l. l\<lparr>exdc_dest := VR4300_REGISTER_R0\<rparr>) s2;
                    s4 = upd_exdc (\<lambda>l. l\<lparr>request := (request l)\<lparr>req_type := VR4300_BUS_REQUEST_NONE\<rparr>\<rparr>) s3
                in (0, vr4300_function_table X (op_id (opcode (rfex s4))) s4 rs_reg rt_reg))))"

subsection \<open>\<^verbatim>\<open>vr4300_dc_stage\<close>\<close>

text \<open>
  The C \<^verbatim>\<open>assert\<close> in the write branch cannot fail: the branch is reached with a request
  type that is neither \<^verbatim>\<open>NONE\<close> nor \<^verbatim>\<open>READ\<close>.
\<close>

definition vr4300_dc_stage :: "'b externals \<Rightarrow> 'b vr4300 \<Rightarrow> int \<times> 'b vr4300" where
  "vr4300_dc_stage X s =
    (let segment = exdc_segment (exdc s);
         address = req_address (request (exdc s));
         s1 = upd_dcwb (\<lambda>l. l\<lparr>dcwb_common := exdc_common (exdc s)\<rparr>) s;
         s2 = upd_dcwb (\<lambda>l. l\<lparr>dcwb_result := exdc_result (exdc s1)\<rparr>) s1;
         s3 = upd_dcwb (\<lambda>l. l\<lparr>dcwb_dest := exdc_dest (exdc s2)\<rparr>) s2
     in if req_type (request (exdc s3)) \<noteq> VR4300_BUS_REQUEST_NONE then
          (case (if seg_length segment < address - seg_start segment
                 then get_segment X address (ucast (regs s3 (VR4300_CP0_REGISTER_STATUS X)) :: u32)
                 else Some segment) of
             None \<Rightarrow> (1, VR4300_DADE X s3)
           | Some segment' \<Rightarrow>
               (let s4 = upd_exdc (\<lambda>l. l\<lparr>exdc_segment := segment'\<rparr>) s3;
                    s5 = upd_exdc (\<lambda>l. l\<lparr>request := (request l)\<lparr>req_address :=
                           req_address (request l) - seg_offset segment'\<rparr>\<rparr>) s4
                in if req_type (request (exdc s5)) = VR4300_BUS_REQUEST_READ
                   then (1, VR4300_DCB X s5)
                   else (0, s5\<lparr>bus := bus_write_word X (bus s5)
                                 (req_address (request (exdc s5)))
                                 (req_word (request (exdc s5)))
                                 (req_dqm (request (exdc s5)))\<rparr>)))
        else (0, s3))"

subsection \<open>\<^verbatim>\<open>vr4300_wb_stage\<close>\<close>

definition vr4300_wb_stage :: "'b vr4300 \<Rightarrow> int \<times> 'b vr4300" where
  "vr4300_wb_stage s =
    (if fault (dcwb_common (dcwb s)) \<noteq> VR4300_FAULT_NONE then (0, s)
     else
       (let s1 = s\<lparr>regs := (regs s)(dcwb_dest (dcwb s) := dcwb_result (dcwb s))\<rparr>;
            s2 = s1\<lparr>regs := (regs s1)(VR4300_REGISTER_R0 := 0)\<rparr>
        in (0, s2)))"

section \<open>The replay variants\<close>

text \<open>
  In the replay variants a stage is guarded by the fault of the latch it reads. The C
  shape \<^verbatim>\<open>if (fault == NONE) { if (stage(vr4300)) return; } else copy;\<close> is one
  \<^verbatim>\<open>case\<close> below: the guarded stage gives its own return value, the \<^verbatim>\<open>else\<close> branch
  gives 0, and a value other than 0 ends the function with the state reached so far.
\<close>

definition vr4300_cycle_slow_wb :: "'b externals \<Rightarrow> 'b vr4300 \<Rightarrow> 'b vr4300" where
  "vr4300_cycle_slow_wb X s =
    (let h = exception_history (pipeline s);
         s0 = s\<lparr>pipeline := (pipeline s)\<lparr>exception_history := h + 1\<rparr>\<rparr>;
         s1 = (if 4 < h then s0\<lparr>pipeline := (pipeline s0)\<lparr>fault_present := False\<rparr>\<rparr> else s0)
     in case (if fault (dcwb_common (dcwb s1)) = VR4300_FAULT_NONE then vr4300_wb_stage s1
              else (0, upd_dcwb (\<lambda>l. l\<lparr>dcwb_common := exdc_common (exdc s1)\<rparr>) s1)) of
       (r2, s2) \<Rightarrow> if r2 \<noteq> 0 then s2 else
     (case (if fault (exdc_common (exdc s2)) = VR4300_FAULT_NONE then vr4300_dc_stage X s2
            else (0, upd_exdc (\<lambda>l. l\<lparr>exdc_common := rfex_common (rfex s2)\<rparr>) s2)) of
       (r3, s3) \<Rightarrow> if r3 \<noteq> 0 then s3 else
     (case (if fault (rfex_common (rfex s3)) = VR4300_FAULT_NONE then vr4300_ex_stage X s3
            else (0, upd_rfex (\<lambda>l. l\<lparr>rfex_common := icrf_common (icrf s3)\<rparr>) s3)) of
       (r4, s4) \<Rightarrow> if r4 \<noteq> 0 then s4 else
     (case (if fault (icrf_common (icrf s4)) = VR4300_FAULT_NONE then vr4300_rf_stage X s4
            else (0, s4)) of
       (r5, s5) \<Rightarrow> if r5 \<noteq> 0 then s5 else
     (case vr4300_ic_stage X s5 of
       (r6, s6) \<Rightarrow> s6)))))"

definition vr4300_cycle_slow_dc :: "'b externals \<Rightarrow> 'b vr4300 \<Rightarrow> 'b vr4300" where
  "vr4300_cycle_slow_dc X s =
     (case (if fault (exdc_common (exdc s)) = VR4300_FAULT_NONE then vr4300_dc_stage X s
            else (0, upd_exdc (\<lambda>l. l\<lparr>exdc_common := rfex_common (rfex s)\<rparr>) s)) of
       (r3, s3) \<Rightarrow> if r3 \<noteq> 0 then s3 else
     (case (if fault (rfex_common (rfex s3)) = VR4300_FAULT_NONE then vr4300_ex_stage X s3
            else (0, upd_rfex (\<lambda>l. l\<lparr>rfex_common := icrf_common (icrf s3)\<rparr>) s3)) of
       (r4, s4) \<Rightarrow> if r4 \<noteq> 0 then s4 else
     (case (if fault (icrf_common (icrf s4)) = VR4300_FAULT_NONE then vr4300_rf_stage X s4
            else (0, s4)) of
       (r5, s5) \<Rightarrow> if r5 \<noteq> 0 then s5 else
     (case vr4300_ic_stage X s5 of
       (r6, s6) \<Rightarrow> if r6 \<noteq> 0 then s6 else
     s6\<lparr>pipeline := (pipeline s6)\<lparr>skip_stages := 0\<rparr>\<rparr>))))"

definition vr4300_cycle_slow_ex :: "'b externals \<Rightarrow> 'b vr4300 \<Rightarrow> 'b vr4300" where
  "vr4300_cycle_slow_ex X s =
     (case (if fault (rfex_common (rfex s)) = VR4300_FAULT_NONE then vr4300_ex_stage X s
            else (0, upd_rfex (\<lambda>l. l\<lparr>rfex_common := icrf_common (icrf s)\<rparr>) s)) of
       (r4, s4) \<Rightarrow> if r4 \<noteq> 0 then s4 else
     (case (if fault (icrf_common (icrf s4)) = VR4300_FAULT_NONE then vr4300_rf_stage X s4
            else (0, s4)) of
       (r5, s5) \<Rightarrow> if r5 \<noteq> 0 then s5 else
     (case vr4300_ic_stage X s5 of
       (r6, s6) \<Rightarrow> if r6 \<noteq> 0 then s6 else
     s6\<lparr>pipeline := (pipeline s6)\<lparr>skip_stages := 0\<rparr>\<rparr>)))"

text \<open>
  Lines 301 to 312 of \<^verbatim>\<open>vr4300_cycle_slow_ex_fixdc\<close>, the value computed for
  \<^verbatim>\<open>dcwb_latch->result\<close>. \<^verbatim>\<open>maskshift\<close> and \<^verbatim>\<open>datashift\<close> are C \<^verbatim>\<open>int\<close>s obtained from the
  unsigned \<^verbatim>\<open>size\<close>; \<^verbatim>\<open>mask\<close> and \<^verbatim>\<open>sdata\<close> are \<^verbatim>\<open>int64_t\<close>, so their right shifts are
  arithmetic, \<^verbatim>\<open>data\<close> is \<^verbatim>\<open>uint64_t\<close>, so its right shift is logical.

  C gives a shift of a 64-bit value a meaning only for a count from 0 to 63. The code is
  built for x86-64 (\<^verbatim>\<open>os/unix/fpu/x86_64\<close>), whose shift instructions use the low six
  bits of the count, and the three shift functions do the same: a count of 64, which
  arises for \<^verbatim>\<open>size == 8\<close> (\<^verbatim>\<open>maskshift\<close>) and for \<^verbatim>\<open>size == 0\<close> (\<^verbatim>\<open>datashift\<close>), shifts
  by 0. For sizes 1 to 7 every count lies between 8 and 56.
\<close>

definition shl64 :: "u64 \<Rightarrow> int \<Rightarrow> u64" where
  "shl64 x n = push_bit (nat (n mod 64)) x"

definition shr64 :: "u64 \<Rightarrow> int \<Rightarrow> u64" where
  "shr64 x n = drop_bit (nat (n mod 64)) x"

definition sar64 :: "u64 \<Rightarrow> int \<Rightarrow> u64" where
  "sar64 x n = signed_drop_bit (nat (n mod 64)) x"

definition fixdc_result :: "vr4300_bus_request \<Rightarrow> u64 \<Rightarrow> u64" where
  "fixdc_result req res =
    (let maskshift = sint (push_bit 3 (req_size req));
         datashift = sint (push_bit 3 (8 - req_size req));
         data = (ucast (req_word req) :: u64);
         sdata = (scast (req_word req) :: u64);
         mask0 = res;
         mask1 = shl64 (sar64 mask0 maskshift) maskshift;
         sdata1 = sar64 (shl64 sdata datashift) datashift;
         data1 = shr64 (shl64 data datashift) datashift
     in (sdata1 AND mask1) OR data1)"

definition vr4300_cycle_slow_ex_fixdc :: "'b externals \<Rightarrow> 'b vr4300 \<Rightarrow> 'b vr4300" where
  "vr4300_cycle_slow_ex_fixdc X s =
    (let s0 = upd_dcwb (\<lambda>l. l\<lparr>dcwb_result :=
                fixdc_result (request (exdc s)) (exdc_result (exdc s))\<rparr>) s
     in case (if fault (rfex_common (rfex s0)) = VR4300_FAULT_NONE then vr4300_ex_stage X s0
              else (0, upd_rfex (\<lambda>l. l\<lparr>rfex_common := icrf_common (icrf s0)\<rparr>) s0)) of
       (r4, s4) \<Rightarrow> if r4 \<noteq> 0 then s4 else
     (case (if fault (icrf_common (icrf s4)) = VR4300_FAULT_NONE then vr4300_rf_stage X s4
            else (0, s4)) of
       (r5, s5) \<Rightarrow> if r5 \<noteq> 0 then s5 else
     (case vr4300_ic_stage X s5 of
       (r6, s6) \<Rightarrow> if r6 \<noteq> 0 then s6 else
     s6\<lparr>pipeline := (pipeline s6)\<lparr>skip_stages := 0\<rparr>\<rparr>)))"

definition vr4300_cycle_slow_rf :: "'b externals \<Rightarrow> 'b vr4300 \<Rightarrow> 'b vr4300" where
  "vr4300_cycle_slow_rf X s =
     (case (if fault (icrf_common (icrf s)) = VR4300_FAULT_NONE then vr4300_rf_stage X s
            else (0, s)) of
       (r5, s5) \<Rightarrow> if r5 \<noteq> 0 then s5 else
     (case vr4300_ic_stage X s5 of
       (r6, s6) \<Rightarrow> if r6 \<noteq> 0 then s6 else
     s6\<lparr>pipeline := (pipeline s6)\<lparr>skip_stages := 0\<rparr>\<rparr>))"

definition vr4300_cycle_slow_ic :: "'b externals \<Rightarrow> 'b vr4300 \<Rightarrow> 'b vr4300" where
  "vr4300_cycle_slow_ic X s =
     (case vr4300_ic_stage X s of
       (r6, s6) \<Rightarrow> if r6 \<noteq> 0 then s6 else
     s6\<lparr>pipeline := (pipeline s6)\<lparr>skip_stages := 0\<rparr>\<rparr>)"

section \<open>The cycle driver\<close>

definition pipeline_function_lut :: "'b externals \<Rightarrow> ('b vr4300 \<Rightarrow> 'b vr4300) list" where
  "pipeline_function_lut X =
    [vr4300_cycle_slow_wb X,
     vr4300_cycle_slow_dc X,
     vr4300_cycle_slow_ex X,
     vr4300_cycle_slow_rf X,
     vr4300_cycle_slow_ic X,
     vr4300_cycle_slow_ex_fixdc X]"

text \<open>
  \<^verbatim>\<open>vr4300_cycle\<close>. The table has six entries and C gives the indexed call no meaning
  when \<^verbatim>\<open>skip_stages\<close> is 6 or more: the model returns \<^const>\<open>None\<close> there, and
  \<^const>\<open>Some\<close> of the state left by the call everywhere else.
\<close>

definition vr4300_cycle :: "'b externals \<Rightarrow> 'b vr4300 \<Rightarrow> 'b vr4300 option" where
  "vr4300_cycle X s =
    (if 0 < cycles_to_stall (pipeline s) then
       Some (s\<lparr>pipeline := (pipeline s)\<lparr>cycles_to_stall := cycles_to_stall (pipeline s) - 1\<rparr>\<rparr>)
     else
       (let s1 = (if signals s AND VR4300_SIGNAL_COLDRESET X \<noteq> 0 then VR4300_RST X s else s)
        in if fault_present (pipeline s1) \<or> skip_stages (pipeline s1) \<noteq> 0 then
             (if unat (skip_stages (pipeline s1)) < 6
              then Some ((pipeline_function_lut X ! unat (skip_stages (pipeline s1))) s1)
              else None)
           else
             (case vr4300_wb_stage s1 of (r2, s2) \<Rightarrow> if r2 \<noteq> 0 then Some s2 else
             (case vr4300_dc_stage X s2 of (r3, s3) \<Rightarrow> if r3 \<noteq> 0 then Some s3 else
             (case vr4300_ex_stage X s3 of (r4, s4) \<Rightarrow> if r4 \<noteq> 0 then Some s4 else
             (case vr4300_rf_stage X s4 of (r5, s5) \<Rightarrow> if r5 \<noteq> 0 then Some s5 else
             (case vr4300_ic_stage X s5 of (r6, s6) \<Rightarrow> Some s6)))))))"

section \<open>Initialisation\<close>

text \<open>
  \<^verbatim>\<open>vr4300_pipeline_init\<close>: \<^verbatim>\<open>memset\<close> to zero, then the default segment in the two latches
  that hold a segment pointer. Zero is read as \<^verbatim>\<open>VR4300_FAULT_NONE\<close>,
  \<^verbatim>\<open>VR4300_BUS_REQUEST_NONE\<close> and \<^verbatim>\<open>false\<close>.
\<close>

definition zero_latch :: vr4300_latch where
  "zero_latch = \<lparr>pc = 0, fault = VR4300_FAULT_NONE\<rparr>"

definition vr4300_pipeline_init :: "'b externals \<Rightarrow> vr4300_pipeline" where
  "vr4300_pipeline_init X =
    \<lparr>dcwb_latch = \<lparr>dcwb_common = zero_latch, dcwb_result = 0, dcwb_dest = 0\<rparr>,
     exdc_latch = \<lparr>exdc_common = zero_latch, exdc_segment = get_default_segment X,
                   exdc_result = 0, exdc_dest = 0,
                   request = \<lparr>req_type = VR4300_BUS_REQUEST_NONE, req_address = 0,
                              req_word = 0, req_size = 0, req_dqm = 0\<rparr>\<rparr>,
     rfex_latch = \<lparr>rfex_common = zero_latch, opcode = \<lparr>op_id = 0, op_flags = 0\<rparr>,
                   iw = 0, iw_mask = 0\<rparr>,
     icrf_latch = \<lparr>icrf_common = zero_latch, icrf_segment = get_default_segment X,
                   icrf_pc = 0\<rparr>,
     exception_history = 0,
     cycles_to_stall = 0,
     skip_stages = 0,
     fault_present = False\<rparr>"

section \<open>Reference formulations of the driver\<close>

text \<open>
  The spec describes the fast path and the replay variants in words: a list of stages
  run in order, stopping at the first one that returns abort. The definitions of this
  section follow those words; the theorems compare them with the functions above.
\<close>

datatype stage = Stage_WB | Stage_DC | Stage_EX | Stage_RF | Stage_IC

fun run_stage :: "'b externals \<Rightarrow> stage \<Rightarrow> 'b vr4300 \<Rightarrow> int \<times> 'b vr4300" where
  "run_stage X Stage_WB s = vr4300_wb_stage s"
| "run_stage X Stage_DC s = vr4300_dc_stage X s"
| "run_stage X Stage_EX s = vr4300_ex_stage X s"
| "run_stage X Stage_RF s = vr4300_rf_stage X s"
| "run_stage X Stage_IC s = vr4300_ic_stage X s"

text \<open>
  Running the stages of a list in order until one returns abort: the result is the list
  of the stages that were invoked, the return value of the last of them and the state.
\<close>

fun run_in_order :: "'b externals \<Rightarrow> stage list \<Rightarrow> 'b vr4300 \<Rightarrow> stage list \<times> int \<times> 'b vr4300" where
  "run_in_order X [] s = ([], 0, s)"
| "run_in_order X (g # gs) s =
    (case run_stage X g s of
       (r, s') \<Rightarrow>
         if r \<noteq> 0 then ([g], r, s')
         else (case run_in_order X gs s' of (tr, r', s'') \<Rightarrow> (g # tr, r', s'')))"

text \<open>
  The squash rule. A stage reads one latch (IC reads none); when that latch carries a
  fault, the stage is replaced by \<open>squash\<close>: for WB, DC and EX the \<^verbatim>\<open>common\<close> record of
  the latch one step upstream is copied into the latch the stage reads; for RF nothing
  is copied.
\<close>

fun input_fault :: "stage \<Rightarrow> 'b vr4300 \<Rightarrow> vr4300_fault_id" where
  "input_fault Stage_WB s = fault (dcwb_common (dcwb s))"
| "input_fault Stage_DC s = fault (exdc_common (exdc s))"
| "input_fault Stage_EX s = fault (rfex_common (rfex s))"
| "input_fault Stage_RF s = fault (icrf_common (icrf s))"
| "input_fault Stage_IC s = VR4300_FAULT_NONE"

fun squash :: "stage \<Rightarrow> 'b vr4300 \<Rightarrow> 'b vr4300" where
  "squash Stage_WB s = upd_dcwb (\<lambda>l. l\<lparr>dcwb_common := exdc_common (exdc s)\<rparr>) s"
| "squash Stage_DC s = upd_exdc (\<lambda>l. l\<lparr>exdc_common := rfex_common (rfex s)\<rparr>) s"
| "squash Stage_EX s = upd_rfex (\<lambda>l. l\<lparr>rfex_common := icrf_common (icrf s)\<rparr>) s"
| "squash Stage_RF s = s"
| "squash Stage_IC s = s"

definition replay_stage :: "'b externals \<Rightarrow> stage \<Rightarrow> 'b vr4300 \<Rightarrow> int \<times> 'b vr4300" where
  "replay_stage X g s =
    (if input_fault g s = VR4300_FAULT_NONE then run_stage X g s else (0, squash g s))"

fun replay_in_order :: "'b externals \<Rightarrow> stage list \<Rightarrow> 'b vr4300 \<Rightarrow> int \<times> 'b vr4300" where
  "replay_in_order X [] s = (0, s)"
| "replay_in_order X (g # gs) s =
    (case replay_stage X g s of
       (r, s') \<Rightarrow> if r \<noteq> 0 then (r, s') else replay_in_order X gs s')"

text \<open>A replay that ran to its end without an abort resets \<^verbatim>\<open>skip_stages\<close>.\<close>

definition replay_done :: "int \<times> 'b vr4300 \<Rightarrow> 'b vr4300" where
  "replay_done rs =
    (case rs of (r, s) \<Rightarrow>
       if r \<noteq> 0 then s else s\<lparr>pipeline := (pipeline s)\<lparr>skip_stages := 0\<rparr>\<rparr>)"

text \<open>A number of consecutive ticks; \<^const>\<open>None\<close> as soon as one tick has no meaning.\<close>

fun ticks :: "'b externals \<Rightarrow> nat \<Rightarrow> 'b vr4300 \<Rightarrow> 'b vr4300 option" where
  "ticks X 0 s = Some s"
| "ticks X (Suc n) s = (case vr4300_cycle X s of None \<Rightarrow> None | Some s' \<Rightarrow> ticks X n s')"

section \<open>A concrete set of collaborators\<close>

text \<open>
  Modelled from the spec: the decoder, the segment map, the fault helpers, the opcode
  handlers and the bus are outside \<^verbatim>\<open>pipeline.c\<close>. To evaluate the pipeline on concrete
  states, this section fixes one simple instance of them: a segment map with a single
  cached window, fault helpers that record the fault kind in one latch (the spec: each
  helper "records the fault kind in the appropriate latch's \<^verbatim>\<open>common.fault\<close>"), a decoder
  and a handler table that know one opcode without effect, the MIPS field positions for
  \<^verbatim>\<open>rs\<close> and \<^verbatim>\<open>rt\<close>, and a bus that logs its writes.
\<close>

type_synonym bus_log = "(u64 \<times> u32 \<times> u32) list"

definition kseg0 :: segment where
  "kseg0 = \<lparr>seg_start = 0xFFFFFFFF80000000, seg_length = 0x1FFFFFFF,
            seg_offset = 0xFFFFFFFF80000000, seg_cached = True\<rparr>"

definition sample_externals :: "bus_log externals" where
  "sample_externals =
    \<lparr>vr4300_decode_instruction = (\<lambda>w. \<lparr>op_id = 0, op_flags = 0\<rparr>),
     get_segment = (\<lambda>a st. if a - seg_start kseg0 \<le> seg_length kseg0 then Some kseg0 else None),
     get_default_segment = kseg0,
     VR4300_IADE = upd_icrf (\<lambda>l. l\<lparr>icrf_common := (icrf_common l)\<lparr>fault := VR4300_FAULT_IADE\<rparr>\<rparr>),
     VR4300_DADE = upd_dcwb (\<lambda>l. l\<lparr>dcwb_common := (dcwb_common l)\<lparr>fault := VR4300_FAULT_DADE\<rparr>\<rparr>),
     VR4300_UNC = upd_rfex (\<lambda>l. l\<lparr>rfex_common := (rfex_common l)\<lparr>fault := VR4300_FAULT_UNC\<rparr>\<rparr>),
     VR4300_LDI = upd_exdc (\<lambda>l. l\<lparr>exdc_common := (exdc_common l)\<lparr>fault := VR4300_FAULT_LDI\<rparr>\<rparr>),
     VR4300_DCB = upd_dcwb (\<lambda>l. l\<lparr>dcwb_common := (dcwb_common l)\<lparr>fault := VR4300_FAULT_DCB\<rparr>\<rparr>),
     VR4300_RST = upd_icrf (\<lambda>l. l\<lparr>icrf_common := (icrf_common l)\<lparr>fault := VR4300_FAULT_RST\<rparr>\<rparr>),
     vr4300_function_table = (\<lambda>i s a b. s),
     bus_write_word = (\<lambda>b a w m. b @ [(a, w, m)]),
     GET_RS = (\<lambda>w. unat (drop_bit 21 w AND 0x1F)),
     GET_RT = (\<lambda>w. unat (drop_bit 16 w AND 0x1F)),
     OPCODE_INFO_NEEDRS = 8,
     OPCODE_INFO_NEEDRT = 16,
     VR4300_SIGNAL_COLDRESET = 1,
     VR4300_CP0_REGISTER_STATUS = 44\<rparr>"

text \<open>
  A processor right after \<^const>\<open>vr4300_pipeline_init\<close>, with all registers zero and the
  fetch address at the start of the window.
\<close>

definition sample_cpu :: "bus_log vr4300" where
  "sample_cpu =
    upd_icrf (\<lambda>l. l\<lparr>icrf_pc := 0xFFFFFFFF80000000\<rparr>)
      \<lparr>regs = (\<lambda>i. 0), pipeline = vr4300_pipeline_init sample_externals, signals = 0, bus = []\<rparr>"

section \<open>Notions used in the statements\<close>

text \<open>
  The spec's reading of the segment test: the address lies outside the segment when the
  unsigned 64-bit difference \<^verbatim>\<open>address - start\<close> exceeds \<^verbatim>\<open>length\<close>. Written on the
  integers, with the wrap-around of the subtraction spelled out.
\<close>

definition outside_segment :: "segment \<Rightarrow> u64 \<Rightarrow> bool" where
  "outside_segment seg a \<longleftrightarrow>
     uint (seg_length seg) < (uint a - uint (seg_start seg)) mod 2 ^ 64"

text \<open>
  The load fix-up as the spec words it, on 64-bit values with shifts in their
  mathematical sense (a shift by 64 or more leaves no bit of the operand):
  \<^verbatim>\<open>maskshift = size * 8\<close>, \<^verbatim>\<open>datashift = (8 - size) * 8\<close>, the mask is
  \<^verbatim>\<open>exdc_latch.result\<close> with its low \<^verbatim>\<open>maskshift\<close> bits cleared, \<^verbatim>\<open>sdata\<close> the arithmetic
  and \<^verbatim>\<open>data\<close> the logical shift round trip of the word by \<^verbatim>\<open>datashift\<close> bits, and the
  result is \<^verbatim>\<open>(sdata & mask) | data\<close>.
\<close>

definition fixup_formula :: "vr4300_bus_request \<Rightarrow> u64 \<Rightarrow> u64" where
  "fixup_formula req res =
    (let maskshift = 8 * unat (req_size req);
         datashift = 8 * (8 - unat (req_size req));
         keep = res AND NOT (mask maskshift);
         sdata = signed_drop_bit datashift (push_bit datashift (scast (req_word req) :: u64));
         data = drop_bit datashift (push_bit datashift (ucast (req_word req) :: u64))
     in (sdata AND keep) OR data)"

text \<open>
  The hypothesis of the register-zero invariant: every fault helper and every opcode
  handler that is entered with \<^verbatim>\<open>regs[R0] == 0\<close> leaves \<^verbatim>\<open>regs[R0] == 0\<close>.
\<close>

definition r0_preserved :: "'b externals \<Rightarrow> bool" where
  "r0_preserved X \<longleftrightarrow>
     (\<forall>s. regs s VR4300_REGISTER_R0 = 0 \<longrightarrow> regs (VR4300_IADE X s) VR4300_REGISTER_R0 = 0) \<and>
     (\<forall>s. regs s VR4300_REGISTER_R0 = 0 \<longrightarrow> regs (VR4300_DADE X s) VR4300_REGISTER_R0 = 0) \<and>
     (\<forall>s. regs s VR4300_REGISTER_R0 = 0 \<longrightarrow> regs (VR4300_UNC X s) VR4300_REGISTER_R0 = 0) \<and>
     (\<forall>s. regs s VR4300_REGISTER_R0 = 0 \<longrightarrow> regs (VR4300_LDI X s) VR4300_REGISTER_R0 = 0) \<and>
     (\<forall>s. regs s VR4300_REGISTER_R0 = 0 \<longrightarrow> regs (VR4300_DCB X s) VR4300_REGISTER_R0 = 0) \<and>
     (\<forall>s. regs s VR4300_REGISTER_R0 = 0 \<longrightarrow> regs (VR4300_RST X s) VR4300_REGISTER_R0 = 0) \<and>
     (\<forall>i s a b. regs s VR4300_REGISTER_R0 = 0 \<longrightarrow>
        regs (vr4300_function_table X i s a b) VR4300_REGISTER_R0 = 0)"

text \<open>
  The control state of the pipeline, and collaborators that leave it alone: a tick in
  which no fault is raised calls only such collaborators.
\<close>

definition control :: "'b vr4300 \<Rightarrow> u32 \<times> u32 \<times> u32 \<times> bool" where
  "control s =
    (exception_history (pipeline s), cycles_to_stall (pipeline s),
     skip_stages (pipeline s), fault_present (pipeline s))"

definition control_frame :: "'b externals \<Rightarrow> bool" where
  "control_frame X \<longleftrightarrow>
     (\<forall>s. control (VR4300_IADE X s) = control s) \<and>
     (\<forall>s. control (VR4300_DADE X s) = control s) \<and>
     (\<forall>s. control (VR4300_UNC X s) = control s) \<and>
     (\<forall>s. control (VR4300_LDI X s) = control s) \<and>
     (\<forall>s. control (VR4300_DCB X s) = control s) \<and>
     (\<forall>s. control (VR4300_RST X s) = control s) \<and>
     (\<forall>i s a b. control (vr4300_function_table X i s a b) = control s)"

section \<open>Concrete processor states\<close>

text \<open>A stalled processor with the cold-reset signal asserted.\<close>

definition stalled_cpu :: "bus_log vr4300" where
  "stalled_cpu =
    sample_cpu\<lparr>pipeline := (pipeline sample_cpu)\<lparr>cycles_to_stall := 3\<rparr>, signals := 1\<rparr>"

text \<open>The fetch address of the spec's scenario "IC segment miss".\<close>

definition miss_cpu :: "bus_log vr4300" where
  "miss_cpu = upd_icrf (\<lambda>l. l\<lparr>icrf_pc := 0xFFFFFFFF00000000\<rparr>) sample_cpu"

text \<open>
  A load whose data is awaited (the EX/DC latch holds a read request), a DC/WB latch
  that targets register 5, and in the RF/EX latch an instruction that needs \<^verbatim>\<open>rs = 5\<close>.
\<close>

definition load_use_cpu :: "bus_log vr4300" where
  "load_use_cpu =
    upd_exdc (\<lambda>l. l\<lparr>request := (request l)\<lparr>req_type := VR4300_BUS_REQUEST_READ\<rparr>\<rparr>)
      (upd_dcwb (\<lambda>l. l\<lparr>dcwb_dest := 5, dcwb_result := 0xDEAD\<rparr>)
        (upd_rfex (\<lambda>l. l\<lparr>opcode := \<lparr>op_id = 0, op_flags = 8\<rparr>, iw := 0x00A00000\<rparr>) sample_cpu))"

text \<open>The same with register 0 in both places.\<close>

definition r0_use_cpu :: "bus_log vr4300" where
  "r0_use_cpu =
    upd_exdc (\<lambda>l. l\<lparr>request := (request l)\<lparr>req_type := VR4300_BUS_REQUEST_READ\<rparr>\<rparr>)
      (upd_rfex (\<lambda>l. l\<lparr>opcode := \<lparr>op_id = 0, op_flags = 8\<rparr>, iw := 0\<rparr>) sample_cpu)"

text \<open>A read request inside the window, and one at an address that no segment covers.\<close>

definition read_cpu :: "bus_log vr4300" where
  "read_cpu =
    upd_exdc (\<lambda>l. l\<lparr>exdc_result := 0x55, exdc_dest := 7,
                     request := \<lparr>req_type = VR4300_BUS_REQUEST_READ,
                                 req_address = 0xFFFFFFFF80000100,
                                 req_word = 0, req_size = 4, req_dqm = 0\<rparr>\<rparr>) sample_cpu"

definition unmapped_read_cpu :: "bus_log vr4300" where
  "unmapped_read_cpu =
    upd_exdc (\<lambda>l. l\<lparr>exdc_result := 0x55, exdc_dest := 7,
                     request := \<lparr>req_type = VR4300_BUS_REQUEST_READ,
                                 req_address = 0x100,
                                 req_word = 0, req_size = 4, req_dqm = 0\<rparr>\<rparr>) sample_cpu"

text \<open>A replay from EX (\<^verbatim>\<open>skip_stages == 2\<close>) whose RF/EX latch carries a fault.\<close>

definition squash_cpu :: "bus_log vr4300" where
  "squash_cpu =
    (upd_rfex (\<lambda>l. l\<lparr>rfex_common := \<lparr>pc = 0, fault = VR4300_FAULT_LDI\<rparr>\<rparr>) sample_cpu)
      \<lparr>pipeline := (pipeline (upd_rfex (\<lambda>l. l\<lparr>rfex_common := \<lparr>pc = 0, fault = VR4300_FAULT_LDI\<rparr>\<rparr>)
                       sample_cpu))\<lparr>skip_stages := 2\<rparr>\<rparr>"

text \<open>A processor in slow mode, no latch faulted, with the history counter at 0.\<close>

definition faulted_cpu :: "bus_log vr4300" where
  "faulted_cpu = sample_cpu\<lparr>pipeline := (pipeline sample_cpu)\<lparr>fault_present := True\<rparr>\<rparr>"

text \<open>The halfword load of the spec's scenario "load sign-extension".\<close>

definition halfword_request :: vr4300_bus_request where
  "halfword_request =
    \<lparr>req_type = VR4300_BUS_REQUEST_READ, req_address = 0, req_word = 0x8000,
     req_size = 2, req_dqm = 0\<rparr>"

text \<open>A doubleword load (\<^verbatim>\<open>size == 8\<close>) whose word has bit 31 set.\<close>

definition doubleword_request :: vr4300_bus_request where
  "doubleword_request =
    \<lparr>req_type = VR4300_BUS_REQUEST_READ, req_address = 0, req_word = 0x80000000,
     req_size = 8, req_dqm = 0\<rparr>"

section \<open>Auxiliary facts\<close>

subsection \<open>Latch updates and the segment test\<close>

lemma upd_regs [simp]:
  "regs (upd_icrf f s) = regs s" "regs (upd_rfex g s) = regs s"
  "regs (upd_exdc h s) = regs s" "regs (upd_dcwb k s) = regs s"
  by (simp_all add: upd_icrf_def upd_rfex_def upd_exdc_def upd_dcwb_def)

lemma outside_segment_word:
  "outside_segment seg a \<longleftrightarrow> seg_length seg < a - seg_start seg"
  by (simp add: outside_segment_def word_less_def uint_word_ariths)

subsection \<open>The replay variants as lists of guarded stages\<close>

lemma replay_gates:
  "(if fault (dcwb_common (dcwb s)) = VR4300_FAULT_NONE then vr4300_wb_stage s
    else (0, upd_dcwb (\<lambda>l. l\<lparr>dcwb_common := exdc_common (exdc s)\<rparr>) s)) = replay_stage X Stage_WB s"
  "(if fault (exdc_common (exdc s)) = VR4300_FAULT_NONE then vr4300_dc_stage X s
    else (0, upd_exdc (\<lambda>l. l\<lparr>exdc_common := rfex_common (rfex s)\<rparr>) s)) = replay_stage X Stage_DC s"
  "(if fault (rfex_common (rfex s)) = VR4300_FAULT_NONE then vr4300_ex_stage X s
    else (0, upd_rfex (\<lambda>l. l\<lparr>rfex_common := icrf_common (icrf s)\<rparr>) s)) = replay_stage X Stage_EX s"
  "(if fault (icrf_common (icrf s)) = VR4300_FAULT_NONE then vr4300_rf_stage X s
    else (0, s)) = replay_stage X Stage_RF s"
  "vr4300_ic_stage X s = replay_stage X Stage_IC s"
  by (simp_all add: replay_stage_def)

lemma replay_last:
  "(case replay_stage X g s of (r, s') \<Rightarrow> s') = snd (replay_in_order X [g] s)"
  by (simp split: prod.splits)

lemma replay_step:
  "(case replay_stage X g s of (r, s') \<Rightarrow> if r \<noteq> 0 then s' else snd (replay_in_order X gs s'))
     = snd (replay_in_order X (g # gs) s)"
  by (simp split: prod.splits)

lemma replay_done_last:
  "(case replay_stage X g s of (r, s') \<Rightarrow>
      if r \<noteq> 0 then s' else s'\<lparr>pipeline := (pipeline s')\<lparr>skip_stages := 0\<rparr>\<rparr>)
     = replay_done (replay_in_order X [g] s)"
  by (simp add: replay_done_def split: prod.splits)

lemma replay_done_step:
  "(case replay_stage X g s of (r, s') \<Rightarrow>
      if r \<noteq> 0 then s' else replay_done (replay_in_order X gs s'))
     = replay_done (replay_in_order X (g # gs) s)"
  by (simp add: replay_done_def split: prod.splits)

lemma history_step:
  fixes s :: "'b vr4300"
  shows "(if 4 < exception_history (pipeline s)
         then (s\<lparr>pipeline := (pipeline s)\<lparr>exception_history := exception_history (pipeline s) + 1\<rparr>\<rparr>)
               \<lparr>pipeline := (pipeline (s\<lparr>pipeline := (pipeline s)\<lparr>exception_history := exception_history (pipeline s) + 1\<rparr>\<rparr>))\<lparr>fault_present := False\<rparr>\<rparr>
         else s\<lparr>pipeline := (pipeline s)\<lparr>exception_history := exception_history (pipeline s) + 1\<rparr>\<rparr>)
      = s\<lparr>pipeline := (pipeline s)\<lparr>exception_history := exception_history (pipeline s) + 1,
         fault_present := fault_present (pipeline s) \<and> exception_history (pipeline s) \<le> 4\<rparr>\<rparr>"
proof (cases "4 < exception_history (pipeline s)")
  case True
  then have "(exception_history (pipeline s) \<le> 4) = False" by (simp add: not_le)
  with True show ?thesis by simp
next
  case False
  then have "(exception_history (pipeline s) \<le> 4) = True" by (simp add: not_less)
  with False show ?thesis by simp
qed

lemma slow_replay:
  fixes X :: "'b externals" and s :: "'b vr4300"
  shows "vr4300_cycle_slow_dc X s =
           replay_done (replay_in_order X [Stage_DC, Stage_EX, Stage_RF, Stage_IC] s)"
    and "vr4300_cycle_slow_ex X s =
           replay_done (replay_in_order X [Stage_EX, Stage_RF, Stage_IC] s)"
    and "vr4300_cycle_slow_rf X s = replay_done (replay_in_order X [Stage_RF, Stage_IC] s)"
    and "vr4300_cycle_slow_ic X s = replay_done (replay_in_order X [Stage_IC] s)"
    and "vr4300_cycle_slow_ex_fixdc X s =
           replay_done (replay_in_order X [Stage_EX, Stage_RF, Stage_IC]
             (upd_dcwb (\<lambda>l. l\<lparr>dcwb_result :=
                fixdc_result (request (exdc s)) (exdc_result (exdc s))\<rparr>) s))"
    and "vr4300_cycle_slow_wb X s =
           snd (replay_in_order X [Stage_WB, Stage_DC, Stage_EX, Stage_RF, Stage_IC]
             (s\<lparr>pipeline := (pipeline s)\<lparr>exception_history := exception_history (pipeline s) + 1,
                  fault_present := fault_present (pipeline s) \<and>
                                   exception_history (pipeline s) \<le> 4\<rparr>\<rparr>))"
  unfolding vr4300_cycle_slow_dc_def vr4300_cycle_slow_ex_def vr4300_cycle_slow_rf_def
    vr4300_cycle_slow_ic_def vr4300_cycle_slow_ex_fixdc_def vr4300_cycle_slow_wb_def
    Let_def history_step
  by (simp_all only: replay_gates(1) [where X = X] replay_gates(2-5)
        replay_last replay_step replay_done_last replay_done_step)

subsection \<open>The fast path as a list of stages\<close>

lemma cycle_fast_path:
  fixes X :: "'b externals" and s :: "'b vr4300"
  assumes "cycles_to_stall (pipeline s) = 0"
      and "signals s AND VR4300_SIGNAL_COLDRESET X = 0"
      and "\<not> fault_present (pipeline s)"
      and "skip_stages (pipeline s) = 0"
  shows "vr4300_cycle X s =
           Some (snd (snd (run_in_order X [Stage_WB, Stage_DC, Stage_EX, Stage_RF, Stage_IC] s)))"
  using assms by (simp add: vr4300_cycle_def split_def)

lemma run_in_order_prefix:
  "\<exists>rest. gs = fst (run_in_order X gs s) @ rest"
proof (induction gs arbitrary: s)
  case Nil
  show ?case by simp
next
  case (Cons g gs)
  show ?case
  proof (cases "fst (run_stage X g s) \<noteq> 0")
    case True
    then show ?thesis by (simp add: split_def)
  next
    case False
    with Cons [of "snd (run_stage X g s)"] show ?thesis by (simp add: split_def)
  qed
qed

subsection \<open>The interlock test of the EX stage\<close>

lemma ex_stage_interlock:
  fixes X :: "'b externals" and s :: "'b vr4300"
  assumes "req_type (request (exdc s)) \<noteq> VR4300_BUS_REQUEST_NONE"
      and "(op_flags (opcode (rfex s)) AND OPCODE_INFO_NEEDRS X \<noteq> 0 \<and>
              GET_RS X (iw (rfex s)) = dcwb_dest (dcwb s)) \<or>
           (op_flags (opcode (rfex s)) AND OPCODE_INFO_NEEDRT X \<noteq> 0 \<and>
              GET_RT X (iw (rfex s)) = dcwb_dest (dcwb s))"
  shows "vr4300_ex_stage X s =
           (1, VR4300_LDI X (upd_exdc (\<lambda>l. l\<lparr>exdc_common := rfex_common (rfex s)\<rparr>) s))"
  using assms
  by (auto simp add: vr4300_ex_stage_def Let_def upd_exdc_def split: prod.splits)

lemma ex_stage_aborts_iff:
  "fst (vr4300_ex_stage X s) \<noteq> 0 \<longleftrightarrow>
     req_type (request (exdc s)) \<noteq> VR4300_BUS_REQUEST_NONE \<and>
     ((dcwb_dest (dcwb s) = GET_RS X (iw (rfex s)) \<and>
         op_flags (opcode (rfex s)) AND OPCODE_INFO_NEEDRS X \<noteq> 0) \<or>
      (dcwb_dest (dcwb s) = GET_RT X (iw (rfex s)) \<and>
         op_flags (opcode (rfex s)) AND OPCODE_INFO_NEEDRT X \<noteq> 0))"
  apply (simp add: vr4300_ex_stage_def Let_def upd_exdc_def split: prod.splits)
  apply (auto intro!: bit_word_eqI simp: bit_simps)
  done

lemma ex_stage_continues:
  fixes X :: "'b externals" and s :: "'b vr4300"
  assumes "fst (vr4300_ex_stage X s) = 0"
  shows "vr4300_ex_stage X s =
     (let s1 = upd_exdc (\<lambda>l. l\<lparr>exdc_common := rfex_common (rfex s)\<rparr>) s;
          fw = ex_forward s1 (GET_RS X (iw (rfex s))) (GET_RT X (iw (rfex s)));
          s2 = upd_exdc (\<lambda>l. l\<lparr>exdc_dest := VR4300_REGISTER_R0,
                 request := (request l)\<lparr>req_type := VR4300_BUS_REQUEST_NONE\<rparr>\<rparr>) (snd (snd fw))
      in (0, vr4300_function_table X (op_id (opcode (rfex s))) s2 (fst fw) (fst (snd fw))))"
  using assms
  by (auto simp add: vr4300_ex_stage_def ex_forward_def Let_def upd_exdc_def split: if_splits)

subsection \<open>Shift round trips on 64-bit words\<close>

lemma shl_sar_clears_low:
  fixes x :: u64
  shows "push_bit m (signed_drop_bit m x) = x AND NOT (mask m)"
  by (rule bit_word_eqI) (auto simp add: bit_simps)

lemma shl_shr_zero_extends:
  fixes x :: u64
  assumes "d \<le> 64"
  shows "drop_bit d (push_bit d x) = take_bit (64 - d) x"
  using assms by (intro bit_word_eqI) (auto simp add: bit_simps)

lemma shl_sar_sign_extends:
  fixes x :: u64
  assumes "d < 64"
  shows "signed_drop_bit d (push_bit d x) = signed_take_bit (63 - d) x"
proof (rule bit_word_eqI)
  fix n :: nat
  assume n: "n < LENGTH(64)"
  show "bit (signed_drop_bit d (push_bit d x)) n = bit (signed_take_bit (63 - d) x) n"
  proof (cases "n < 63 - d")
    case True
    with assms n show ?thesis by (auto simp add: bit_simps min_def)
  next
    case False
    then have "63 - d \<le> n" by simp
    moreover have "d + (63 - d) = 63" using assms by simp
    ultimately show ?thesis using assms n
      by (cases "n = 63 - d") (auto simp add: bit_simps min_def)
  qed
qed

lemma unat_eq_of_nat:
  fixes n :: u32
  shows "unat n = k \<Longrightarrow> n = of_nat k"
  by auto

lemma size_cases:
  fixes n :: u32
  assumes "1 \<le> n" "n \<le> 7"
  shows "n = 1 \<or> n = 2 \<or> n = 3 \<or> n = 4 \<or> n = 5 \<or> n = 6 \<or> n = 7"
proof -
  have a: "1 \<le> unat n" "unat n \<le> 7"
    using assms by (simp_all add: word_le_nat_alt)
  then have "unat n = 1 \<or> unat n = 2 \<or> unat n = 3 \<or> unat n = 4 \<or> unat n = 5 \<or>
             unat n = 6 \<or> unat n = 7"
    by arith
  then have "n = of_nat 1 \<or> n = of_nat 2 \<or> n = of_nat 3 \<or> n = of_nat 4 \<or> n = of_nat 5 \<or>
             n = of_nat 6 \<or> n = of_nat 7"
    using unat_eq_of_nat [of n] by blast
  then show ?thesis by simp
qed

lemma fixdc_result_extends:
  assumes "1 \<le> req_size req" "req_size req \<le> 7"
  shows "fixdc_result req res =
           (signed_take_bit (8 * unat (req_size req) - 1) (scast (req_word req) :: u64)
              AND (res AND NOT (mask (8 * unat (req_size req)))))
           OR take_bit (8 * unat (req_size req)) (ucast (req_word req) :: u64)"
  using size_cases [OF assms]
  by (elim disjE) (simp_all add: fixdc_result_def shl64_def shr64_def sar64_def Let_def
        shl_sar_clears_low shl_shr_zero_extends shl_sar_sign_extends)

lemma fixup_formula_extends:
  assumes "1 \<le> req_size req" "req_size req \<le> 7"
  shows "fixup_formula req res =
           (signed_take_bit (8 * unat (req_size req) - 1) (scast (req_word req) :: u64)
              AND (res AND NOT (mask (8 * unat (req_size req)))))
           OR take_bit (8 * unat (req_size req)) (ucast (req_word req) :: u64)"
proof -
  from assms have n: "1 \<le> unat (req_size req)" "unat (req_size req) \<le> 7"
    by (simp_all add: word_le_nat_alt)
  let ?m = "8 * unat (req_size req)"
  from n have e: "8 * (8 - unat (req_size req)) = 64 - ?m" by simp
  from n have d: "64 - ?m < 64" "64 - ?m \<le> 64" "63 - (64 - ?m) = ?m - 1" "64 - (64 - ?m) = ?m"
    by simp_all
  have sd: "signed_drop_bit (64 - ?m) (push_bit (64 - ?m) (scast (req_word req) :: u64))
              = signed_take_bit (?m - 1) (scast (req_word req))"
    using shl_sar_sign_extends [OF d(1)] d(3) by simp
  have zd: "drop_bit (64 - ?m) (push_bit (64 - ?m) (ucast (req_word req) :: u64))
              = take_bit ?m (ucast (req_word req))"
    using shl_shr_zero_extends [OF d(2)] d(4) by simp
  show ?thesis
    unfolding fixup_formula_def Let_def e sd zd ..
qed

text \<open>
  For sizes 1 to 7 the code stores the value of the formula: the sign extension of the
  low \<^verbatim>\<open>size\<close> bytes of the word under the high bits that the mask keeps, over their zero
  extension.
\<close>

lemma fixdc_result_in_range:
  assumes "1 \<le> req_size req" "req_size req \<le> 7"
  shows "fixdc_result req res = fixup_formula req res"
  by (simp only: fixdc_result_extends [OF assms] fixup_formula_extends [OF assms])

subsection \<open>Register 0 through the stages\<close>

lemma ex_forward_regs:
  "regs s VR4300_REGISTER_R0 = 0 \<Longrightarrow> regs (snd (snd (ex_forward s rs rt))) = regs s"
  by (auto simp add: ex_forward_def Let_def VR4300_REGISTER_R0_def fun_eq_iff)

lemma wb_stage_r0:
  "regs s VR4300_REGISTER_R0 = 0 \<Longrightarrow> regs (snd (vr4300_wb_stage s)) VR4300_REGISTER_R0 = 0"
  by (simp add: vr4300_wb_stage_def Let_def)

lemma dc_stage_r0:
  "r0_preserved X \<Longrightarrow> regs s VR4300_REGISTER_R0 = 0 \<Longrightarrow>
     regs (snd (vr4300_dc_stage X s)) VR4300_REGISTER_R0 = 0"
  by (simp add: vr4300_dc_stage_def r0_preserved_def Let_def split: option.splits)

lemma ex_stage_r0:
  "r0_preserved X \<Longrightarrow> regs s VR4300_REGISTER_R0 = 0 \<Longrightarrow>
     regs (snd (vr4300_ex_stage X s)) VR4300_REGISTER_R0 = 0"
proof -
  assume X: "r0_preserved X" and s: "regs s VR4300_REGISTER_R0 = 0"
  let ?s1 = "upd_exdc (\<lambda>l. l\<lparr>exdc_common := rfex_common (rfex s)\<rparr>) s"
  have s1: "regs ?s1 VR4300_REGISTER_R0 = 0" using s by simp
  have fw: "regs (snd (snd (ex_forward ?s1 rs rt))) VR4300_REGISTER_R0 = 0" for rs rt
    using ex_forward_regs [OF s1] s1 by simp
  show ?thesis
    using X s1 fw
    by (simp add: vr4300_ex_stage_def r0_preserved_def Let_def split_def)
qed

lemma rf_stage_r0:
  "r0_preserved X \<Longrightarrow> regs s VR4300_REGISTER_R0 = 0 \<Longrightarrow>
     regs (snd (vr4300_rf_stage X s)) VR4300_REGISTER_R0 = 0"
  by (simp add: vr4300_rf_stage_def r0_preserved_def Let_def)

lemma ic_stage_r0:
  "r0_preserved X \<Longrightarrow> regs s VR4300_REGISTER_R0 = 0 \<Longrightarrow>
     regs (snd (vr4300_ic_stage X s)) VR4300_REGISTER_R0 = 0"
  by (simp add: vr4300_ic_stage_def r0_preserved_def Let_def split: option.splits)

lemma run_stage_r0:
  "r0_preserved X \<Longrightarrow> regs s VR4300_REGISTER_R0 = 0 \<Longrightarrow>
     regs (snd (run_stage X g s)) VR4300_REGISTER_R0 = 0"
  by (cases g) (simp_all add: wb_stage_r0 dc_stage_r0 ex_stage_r0 rf_stage_r0 ic_stage_r0)

lemma replay_stage_r0:
  "r0_preserved X \<Longrightarrow> regs s VR4300_REGISTER_R0 = 0 \<Longrightarrow>
     regs (snd (replay_stage X g s)) VR4300_REGISTER_R0 = 0"
  by (cases g)
    (simp_all add: replay_stage_def wb_stage_r0 dc_stage_r0 ex_stage_r0 rf_stage_r0 ic_stage_r0)

lemma replay_in_order_r0:
  "r0_preserved X \<Longrightarrow> regs s VR4300_REGISTER_R0 = 0 \<Longrightarrow>
     regs (snd (replay_in_order X gs s)) VR4300_REGISTER_R0 = 0"
proof (induction gs arbitrary: s)
  case Nil
  then show ?case by simp
next
  case (Cons g gs)
  from Cons.prems have "regs (snd (replay_stage X g s)) VR4300_REGISTER_R0 = 0"
    by (rule replay_stage_r0)
  with Cons.IH [OF Cons.prems(1), of "snd (replay_stage X g s)"] show ?case
    by (simp add: split_def)
qed

lemma run_in_order_r0:
  "r0_preserved X \<Longrightarrow> regs s VR4300_REGISTER_R0 = 0 \<Longrightarrow>
     regs (snd (snd (run_in_order X gs s))) VR4300_REGISTER_R0 = 0"
proof (induction gs arbitrary: s)
  case Nil
  then show ?case by simp
next
  case (Cons g gs)
  from Cons.prems have "regs (snd (run_stage X g s)) VR4300_REGISTER_R0 = 0"
    by (rule run_stage_r0)
  with Cons.IH [OF Cons.prems(1), of "snd (run_stage X g s)"] show ?case
    by (simp add: split_def)
qed

lemma replay_done_r0:
  "regs (snd rs) VR4300_REGISTER_R0 = 0 \<Longrightarrow> regs (replay_done rs) VR4300_REGISTER_R0 = 0"
  by (simp add: replay_done_def split_def)

subsection \<open>Dispatch of the driver\<close>

lemma cycle_replay:
  fixes X :: "'b externals" and s :: "'b vr4300"
  assumes "cycles_to_stall (pipeline s) = 0"
      and "signals s AND VR4300_SIGNAL_COLDRESET X = 0"
      and "fault_present (pipeline s) \<or> skip_stages (pipeline s) \<noteq> 0"
      and "unat (skip_stages (pipeline s)) < 6"
  shows "vr4300_cycle X s = Some ((pipeline_function_lut X ! unat (skip_stages (pipeline s))) s)"
  using assms by (simp add: vr4300_cycle_def)

lemma slow_ex_fixdc_slow_ex:
  fixes X :: "'b externals" and s :: "'b vr4300"
  shows "vr4300_cycle_slow_ex_fixdc X s =
           vr4300_cycle_slow_ex X
             (upd_dcwb (\<lambda>l. l\<lparr>dcwb_result :=
                fixdc_result (request (exdc s)) (exdc_result (exdc s))\<rparr>) s)"
  by (simp add: vr4300_cycle_slow_ex_fixdc_def vr4300_cycle_slow_ex_def Let_def)

subsection \<open>Register 0 through the driver\<close>

lemma cycle_unfolded:
  fixes X :: "'b externals" and s :: "'b vr4300"
  shows "vr4300_cycle X s =
    (if 0 < cycles_to_stall (pipeline s) then
       Some (s\<lparr>pipeline := (pipeline s)\<lparr>cycles_to_stall := cycles_to_stall (pipeline s) - 1\<rparr>\<rparr>)
     else
       (let s1 = (if signals s AND VR4300_SIGNAL_COLDRESET X \<noteq> 0 then VR4300_RST X s else s)
        in if fault_present (pipeline s1) \<or> skip_stages (pipeline s1) \<noteq> 0 then
             (if unat (skip_stages (pipeline s1)) < 6
              then Some ((pipeline_function_lut X ! unat (skip_stages (pipeline s1))) s1)
              else None)
           else Some (snd (snd (run_in_order X
                  [Stage_WB, Stage_DC, Stage_EX, Stage_RF, Stage_IC] s1)))))"
  by (simp add: vr4300_cycle_def split_def Let_def)

lemma lut_index_cases:
  "k < 6 \<Longrightarrow> k = 0 \<or> k = 1 \<or> k = 2 \<or> k = 3 \<or> k = 4 \<or> k = (5::nat)"
  by arith

lemma lut_r0:
  fixes X :: "'b externals" and s :: "'b vr4300"
  assumes "k < 6" and X: "r0_preserved X" and s: "regs s VR4300_REGISTER_R0 = 0"
  shows "regs ((pipeline_function_lut X ! k) s) VR4300_REGISTER_R0 = 0"
proof -
  have wb: "regs (vr4300_cycle_slow_wb X s) VR4300_REGISTER_R0 = 0"
    unfolding slow_replay by (rule replay_in_order_r0 [OF X]) (simp add: s)
  have dc: "regs (vr4300_cycle_slow_dc X s) VR4300_REGISTER_R0 = 0"
    unfolding slow_replay by (rule replay_done_r0, rule replay_in_order_r0 [OF X s])
  have ex: "regs (vr4300_cycle_slow_ex X s) VR4300_REGISTER_R0 = 0"
    unfolding slow_replay by (rule replay_done_r0, rule replay_in_order_r0 [OF X s])
  have rf: "regs (vr4300_cycle_slow_rf X s) VR4300_REGISTER_R0 = 0"
    unfolding slow_replay by (rule replay_done_r0, rule replay_in_order_r0 [OF X s])
  have ic: "regs (vr4300_cycle_slow_ic X s) VR4300_REGISTER_R0 = 0"
    unfolding slow_replay by (rule replay_done_r0, rule replay_in_order_r0 [OF X s])
  have fx: "regs (vr4300_cycle_slow_ex_fixdc X s) VR4300_REGISTER_R0 = 0"
    unfolding slow_replay by (rule replay_done_r0, rule replay_in_order_r0 [OF X]) (simp add: s)
  from lut_index_cases [OF assms(1)] wb dc ex rf ic fx show ?thesis
    by (elim disjE) (simp_all add: pipeline_function_lut_def)
qed

lemma cycle_r0:
  fixes X :: "'b externals" and s :: "'b vr4300"
  assumes X: "r0_preserved X" and s: "regs s VR4300_REGISTER_R0 = 0"
      and c: "vr4300_cycle X s = Some s'"
  shows "regs s' VR4300_REGISTER_R0 = 0"
proof (cases "0 < cycles_to_stall (pipeline s)")
  case True
  with c s show ?thesis by (auto simp add: cycle_unfolded)
next
  case False
  define s1 where "s1 = (if signals s AND VR4300_SIGNAL_COLDRESET X \<noteq> 0 then VR4300_RST X s else s)"
  have s1: "regs s1 VR4300_REGISTER_R0 = 0"
    using X s by (simp add: s1_def r0_preserved_def)
  show ?thesis
  proof (cases "fault_present (pipeline s1) \<or> skip_stages (pipeline s1) \<noteq> 0")
    case True
    with False c have k: "unat (skip_stages (pipeline s1)) < 6"
      and e: "s' = (pipeline_function_lut X ! unat (skip_stages (pipeline s1))) s1"
      by (auto simp add: cycle_unfolded s1_def [symmetric] Let_def split: if_splits)
    show ?thesis unfolding e by (rule lut_r0 [OF k X s1])
  next
    case no: False
    with False c have e: "s' = snd (snd (run_in_order X
                  [Stage_WB, Stage_DC, Stage_EX, Stage_RF, Stage_IC] s1))"
      by (auto simp add: cycle_unfolded s1_def [symmetric] Let_def split: if_splits)
    show ?thesis unfolding e by (rule run_in_order_r0 [OF X s1])
  qed
qed

lemma cycle_returns:
  fixes X :: "'b externals" and s :: "'b vr4300"
  assumes "0 < cycles_to_stall (pipeline s) \<or>
           unat (skip_stages (pipeline
             (if signals s AND VR4300_SIGNAL_COLDRESET X \<noteq> 0 then VR4300_RST X s else s))) < 6"
  shows "\<exists>s'. vr4300_cycle X s = Some s'"
  using assms by (auto simp add: cycle_unfolded Let_def)

subsection \<open>The control state through a replay tick\<close>

lemma upd_control [simp]:
  "control (upd_icrf f s) = control s" "control (upd_rfex g s) = control s"
  "control (upd_exdc h s) = control s" "control (upd_dcwb k s) = control s"
  "control (s\<lparr>regs := r\<rparr>) = control s" "control (s\<lparr>bus := b\<rparr>) = control s"
  by (simp_all add: control_def upd_icrf_def upd_rfex_def upd_exdc_def upd_dcwb_def)

lemma ex_forward_control [simp]:
  "control (snd (snd (ex_forward s rs rt))) = control s"
  by (simp add: ex_forward_def Let_def)

lemma wb_stage_control:
  "control (snd (vr4300_wb_stage s)) = control s"
  by (simp add: vr4300_wb_stage_def Let_def)

lemma dc_stage_control:
  "control_frame X \<Longrightarrow> control (snd (vr4300_dc_stage X s)) = control s"
  by (simp add: vr4300_dc_stage_def control_frame_def Let_def split: option.splits)

lemma ex_stage_control:
  "control_frame X \<Longrightarrow> control (snd (vr4300_ex_stage X s)) = control s"
  by (simp add: vr4300_ex_stage_def control_frame_def Let_def split_def)

lemma rf_stage_control:
  "control_frame X \<Longrightarrow> control (snd (vr4300_rf_stage X s)) = control s"
  by (simp add: vr4300_rf_stage_def control_frame_def Let_def)

lemma ic_stage_control:
  "control_frame X \<Longrightarrow> control (snd (vr4300_ic_stage X s)) = control s"
  by (simp add: vr4300_ic_stage_def control_frame_def Let_def split: option.splits)

lemma replay_stage_control:
  "control_frame X \<Longrightarrow> control (snd (replay_stage X g s)) = control s"
  by (cases g)
    (simp_all add: replay_stage_def wb_stage_control dc_stage_control ex_stage_control
       rf_stage_control ic_stage_control)

lemma replay_in_order_control:
  "control_frame X \<Longrightarrow> control (snd (replay_in_order X gs s)) = control s"
proof (induction gs arbitrary: s)
  case Nil
  then show ?case by simp
next
  case (Cons g gs)
  from Cons.IH [OF Cons.prems, of "snd (replay_stage X g s)"]
    replay_stage_control [OF Cons.prems, of g s]
  show ?case by (simp add: split_def)
qed

lemma slow_wb_control:
  fixes X :: "'b externals" and s :: "'b vr4300"
  assumes "control_frame X"
  shows "control (vr4300_cycle_slow_wb X s) =
           (exception_history (pipeline s) + 1, cycles_to_stall (pipeline s),
            skip_stages (pipeline s),
            fault_present (pipeline s) \<and> exception_history (pipeline s) \<le> 4)"
  unfolding slow_replay replay_in_order_control [OF assms]
  by (simp add: control_def)

lemma slow_tick:
  fixes X :: "'b externals" and s :: "'b vr4300"
  assumes X: "control_frame X"
      and a: "cycles_to_stall (pipeline s) = 0"
      and b: "skip_stages (pipeline s) = 0"
      and c: "fault_present (pipeline s)"
  shows "\<exists>s'. vr4300_cycle X s = Some s' \<and>
           control s' = (exception_history (pipeline s) + 1, 0, 0,
                         exception_history (pipeline s) \<le> 4)"
proof -
  define s1 where "s1 = (if signals s AND VR4300_SIGNAL_COLDRESET X \<noteq> 0 then VR4300_RST X s else s)"
  have "control s1 = control s"
    using X by (simp add: s1_def control_frame_def)
  with a b c have s1: "cycles_to_stall (pipeline s1) = 0" "skip_stages (pipeline s1) = 0"
    "fault_present (pipeline s1)" "exception_history (pipeline s1) = exception_history (pipeline s)"
    by (simp_all add: control_def)
  have "vr4300_cycle X s = Some (vr4300_cycle_slow_wb X s1)"
    using a s1 by (simp add: cycle_unfolded s1_def [symmetric] Let_def pipeline_function_lut_def)
  moreover have "control (vr4300_cycle_slow_wb X s1) =
      (exception_history (pipeline s) + 1, 0, 0, exception_history (pipeline s) \<le> 4)"
    using slow_wb_control [OF X, of s1] s1 by simp
  ultimately show ?thesis by blast
qed

lemma slow_ticks_from:
  fixes X :: "'b externals" and s :: "'b vr4300"
  assumes X: "control_frame X"
  shows "control s = (h, 0, 0, True) \<Longrightarrow> unat h + n \<le> 5 \<Longrightarrow>
           \<exists>s'. ticks X n s = Some s' \<and> control s' = (h + of_nat n, 0, 0, True)"
proof (induction n arbitrary: s h)
  case 0
  then show ?case by simp
next
  case (Suc n)
  from Suc.prems(1) have c: "cycles_to_stall (pipeline s) = 0" "skip_stages (pipeline s) = 0"
    "fault_present (pipeline s)" "exception_history (pipeline s) = h"
    by (simp_all add: control_def)
  from Suc.prems(2) have "unat h \<le> 4" by simp
  then have h4: "h \<le> 4" by (simp add: word_le_nat_alt)
  from slow_tick [OF X c(1) c(2) c(3)] c(4) h4
  obtain s1 where s1: "vr4300_cycle X s = Some s1" "control s1 = (h + 1, 0, 0, True)"
    by auto
  from \<open>unat h \<le> 4\<close> have "unat (h + 1) = unat h + 1"
    by (simp add: unat_word_ariths)
  with Suc.prems(2) have "unat (h + 1) + n \<le> 5" by simp
  from Suc.IH [OF s1(2) this] obtain s' where
    "ticks X n s1 = Some s'" "control s' = (h + 1 + of_nat n, 0, 0, True)"
    by blast
  with s1(1) show ?case by (simp add: add.assoc add.commute)
qed

lemma sixth_slow_tick:
  fixes X :: "'b externals" and s :: "'b vr4300"
  assumes X: "control_frame X" and s: "control s = (0, 0, 0, True)"
  shows "\<exists>s5 s6. ticks X 5 s = Some s5 \<and> fault_present (pipeline s5) \<and>
           exception_history (pipeline s5) = 5 \<and>
           vr4300_cycle X s5 = Some s6 \<and> \<not> fault_present (pipeline s6) \<and>
           exception_history (pipeline s6) = 6 \<and>
           cycles_to_stall (pipeline s6) = 0 \<and> skip_stages (pipeline s6) = 0"
proof -
  from slow_ticks_from [OF X s, of 5] obtain s5 where
    s5: "ticks X 5 s = Some s5" "control s5 = (5, 0, 0, True)"
    by auto
  then have c: "cycles_to_stall (pipeline s5) = 0" "skip_stages (pipeline s5) = 0"
    "fault_present (pipeline s5)" "exception_history (pipeline s5) = 5"
    by (simp_all add: control_def)
  from slow_tick [OF X c(1) c(2) c(3)] c(4)
  obtain s6 where "vr4300_cycle X s5 = Some s6" "control s6 = (6, 0, 0, False)"
    by auto
  with s5(1) c show ?thesis by (auto simp add: control_def)
qed

lemma ticks_Suc_end:
  "ticks X (Suc n) s = (case ticks X n s of None \<Rightarrow> None | Some s' \<Rightarrow> vr4300_cycle X s')"
proof (induction n arbitrary: s)
  case 0
  show ?case by (simp split: option.splits)
next
  case (Suc n)
  show ?case
  proof (cases "vr4300_cycle X s")
    case None
    then show ?thesis by simp
  next
    case (Some s1)
    then have "ticks X (Suc (Suc n)) s = ticks X (Suc n) s1" by simp
    also have "\<dots> = (case ticks X n s1 of None \<Rightarrow> None | Some s' \<Rightarrow> vr4300_cycle X s')"
      by (rule Suc.IH)
    also have "\<dots> = (case ticks X (Suc n) s of None \<Rightarrow> None | Some s' \<Rightarrow> vr4300_cycle X s')"
      using Some by simp
    finally show ?thesis .
  qed
qed

lemma fast_path_after_clear:
  fixes X :: "'b externals" and s :: "'b vr4300"
  assumes X: "control_frame X"
      and a: "cycles_to_stall (pipeline s) = 0"
      and b: "skip_stages (pipeline s) = 0"
      and c: "\<not> fault_present (pipeline s)"
  shows "vr4300_cycle X s =
           Some (snd (snd (run_in_order X [Stage_WB, Stage_DC, Stage_EX, Stage_RF, Stage_IC]
             (if signals s AND VR4300_SIGNAL_COLDRESET X \<noteq> 0 then VR4300_RST X s else s))))"
proof -
  define s1 where "s1 = (if signals s AND VR4300_SIGNAL_COLDRESET X \<noteq> 0 then VR4300_RST X s else s)"
  have "control s1 = control s"
    using X by (simp add: s1_def control_frame_def)
  with b c have s1: "skip_stages (pipeline s1) = 0" "\<not> fault_present (pipeline s1)"
    by (simp_all add: control_def)
  show ?thesis
    using a s1 by (simp add: cycle_unfolded s1_def [symmetric] Let_def)
qed

section \<open>The claims\<close>

text \<open>
  C1. Register-zero invariant. If the fault helpers and the opcode handlers preserve
  \<^verbatim>\<open>regs[R0] == 0\<close>, then a call of \<^verbatim>\<open>vr4300_cycle\<close> that starts with \<^verbatim>\<open>regs[R0] == 0\<close>
  returns with \<^verbatim>\<open>regs[R0] == 0\<close>; and the call does return whenever it stalls or indexes
  the table of replay variants within its six entries. In particular \<^verbatim>\<open>vr4300_wb_stage\<close>
  forces \<^verbatim>\<open>regs[R0]\<close> to zero after its write, whatever the register held and whatever
  the latch names as destination, and the forwarding block of \<^verbatim>\<open>vr4300_ex_stage\<close>, entered
  with \<^verbatim>\<open>regs[R0] == 0\<close>, leaves the whole register file as it found it for every
  \<^verbatim>\<open>dcwb_latch.dest\<close> and \<^verbatim>\<open>dcwb_latch.result\<close>.
\<close>

theorem C1_register_zero_invariant:
  fixes X :: "'b externals" and s t :: "'b vr4300"
  assumes "r0_preserved X" and "regs s VR4300_REGISTER_R0 = 0"
  shows "(\<forall>s'. vr4300_cycle X s = Some s' \<longrightarrow> regs s' VR4300_REGISTER_R0 = 0) \<and>
         (0 < cycles_to_stall (pipeline s) \<or>
          unat (skip_stages (pipeline
            (if signals s AND VR4300_SIGNAL_COLDRESET X \<noteq> 0 then VR4300_RST X s else s))) < 6
            \<longrightarrow> (\<exists>s'. vr4300_cycle X s = Some s')) \<and>
         (fault (dcwb_common (dcwb t)) = VR4300_FAULT_NONE \<longrightarrow>
            regs (snd (vr4300_wb_stage t)) VR4300_REGISTER_R0 = 0) \<and>
         (\<forall>d r rs rt.
            regs (snd (snd (ex_forward
              (upd_dcwb (\<lambda>l. l\<lparr>dcwb_dest := d, dcwb_result := r\<rparr>) s) rs rt))) = regs s)"
proof (intro conjI allI impI)
  fix s' assume "vr4300_cycle X s = Some s'"
  with assms show "regs s' VR4300_REGISTER_R0 = 0" by (rule cycle_r0)
next
  assume "0 < cycles_to_stall (pipeline s) \<or>
          unat (skip_stages (pipeline
            (if signals s AND VR4300_SIGNAL_COLDRESET X \<noteq> 0 then VR4300_RST X s else s))) < 6"
  then show "\<exists>s'. vr4300_cycle X s = Some s'" by (rule cycle_returns)
next
  assume "fault (dcwb_common (dcwb t)) = VR4300_FAULT_NONE"
  then show "regs (snd (vr4300_wb_stage t)) VR4300_REGISTER_R0 = 0"
    by (simp add: vr4300_wb_stage_def Let_def)
next
  fix d r rs rt
  have "regs (upd_dcwb (\<lambda>l. l\<lparr>dcwb_dest := d, dcwb_result := r\<rparr>) s) VR4300_REGISTER_R0 = 0"
    using assms(2) by simp
  from ex_forward_regs [OF this, of rs rt]
  show "regs (snd (snd (ex_forward
              (upd_dcwb (\<lambda>l. l\<lparr>dcwb_dest := d, dcwb_result := r\<rparr>) s) rs rt))) = regs s"
    by simp
qed

theorem C1_register_zero_invariant_witness:
  "r0_preserved sample_externals \<and>
   regs load_use_cpu VR4300_REGISTER_R0 = 0 \<and>
   (\<exists>s'. vr4300_cycle sample_externals load_use_cpu = Some s' \<and>
      regs s' VR4300_REGISTER_R0 = 0) \<and>
   regs (snd (snd (ex_forward
      (upd_dcwb (\<lambda>l. l\<lparr>dcwb_dest := 0, dcwb_result := 0xDEAD\<rparr>) load_use_cpu) 0 5)))
     = regs load_use_cpu"
proof -
  have x: "r0_preserved sample_externals"
    by (simp add: r0_preserved_def sample_externals_def)
  have r: "regs load_use_cpu VR4300_REGISTER_R0 = 0"
    by code_simp
  have k: "0 < cycles_to_stall (pipeline load_use_cpu) \<or>
          unat (skip_stages (pipeline
            (if signals load_use_cpu AND VR4300_SIGNAL_COLDRESET sample_externals \<noteq> 0
             then VR4300_RST sample_externals load_use_cpu else load_use_cpu))) < 6"
    by code_simp
  note inst = C1_register_zero_invariant [OF x r, of load_use_cpu]
  from inst k have c: "\<exists>s'. vr4300_cycle sample_externals load_use_cpu = Some s' \<and>
      regs s' VR4300_REGISTER_R0 = 0"
    by blast
  from inst have f: "regs (snd (snd (ex_forward
      (upd_dcwb (\<lambda>l. l\<lparr>dcwb_dest := 0, dcwb_result := 0xDEAD\<rparr>) load_use_cpu) 0 5)))
     = regs load_use_cpu"
    by blast
  from x r c f show ?thesis by (intro conjI)
qed

text \<open>
  C2. Entered with \<^verbatim>\<open>cycles_to_stall == 0\<close>, no cold reset pending, \<^verbatim>\<open>fault_present\<close>
  false and \<^verbatim>\<open>skip_stages == 0\<close>, \<^verbatim>\<open>vr4300_cycle\<close> invokes the stages in the order WB, DC,
  EX, RF, IC and returns right after the first of them that returns abort: its result is
  the state in which that stage left the processor, and the stages invoked are an
  initial part of the list.
\<close>

theorem C2_fast_path_order:
  fixes X :: "'b externals" and s :: "'b vr4300"
  assumes "cycles_to_stall (pipeline s) = 0"
      and "signals s AND VR4300_SIGNAL_COLDRESET X = 0"
      and "\<not> fault_present (pipeline s)"
      and "skip_stages (pipeline s) = 0"
  shows "vr4300_cycle X s =
           Some (snd (snd (run_in_order X [Stage_WB, Stage_DC, Stage_EX, Stage_RF, Stage_IC] s))) \<and>
         (\<exists>rest. [Stage_WB, Stage_DC, Stage_EX, Stage_RF, Stage_IC] =
            fst (run_in_order X [Stage_WB, Stage_DC, Stage_EX, Stage_RF, Stage_IC] s) @ rest)"
  using cycle_fast_path [OF assms] run_in_order_prefix by blast

theorem C2_fast_path_order_witness:
  "cycles_to_stall (pipeline read_cpu) = 0 \<and>
   signals read_cpu AND VR4300_SIGNAL_COLDRESET sample_externals = 0 \<and>
   \<not> fault_present (pipeline read_cpu) \<and>
   skip_stages (pipeline read_cpu) = 0 \<and>
   fst (run_in_order sample_externals [Stage_WB, Stage_DC, Stage_EX, Stage_RF, Stage_IC] read_cpu)
     = [Stage_WB, Stage_DC] \<and>
   vr4300_cycle sample_externals read_cpu =
     Some (snd (snd (run_in_order sample_externals
        [Stage_WB, Stage_DC, Stage_EX, Stage_RF, Stage_IC] read_cpu)))"
proof -
  have h1: "cycles_to_stall (pipeline read_cpu) = 0" by code_simp
  have h2: "signals read_cpu AND VR4300_SIGNAL_COLDRESET sample_externals = 0" by code_simp
  have h3: "\<not> fault_present (pipeline read_cpu)" by code_simp
  have h4: "skip_stages (pipeline read_cpu) = 0" by code_simp
  have tr: "fst (run_in_order sample_externals [Stage_WB, Stage_DC, Stage_EX, Stage_RF, Stage_IC] read_cpu)
     = [Stage_WB, Stage_DC]" by code_simp
  have c: "vr4300_cycle sample_externals read_cpu =
     Some (snd (snd (run_in_order sample_externals
        [Stage_WB, Stage_DC, Stage_EX, Stage_RF, Stage_IC] read_cpu)))"
    using C2_fast_path_order [OF h1 h2 h3 h4] by (rule conjunct1)
  from h1 h2 h3 h4 tr c show ?thesis by (intro conjI)
qed

text \<open>
  C3, as the code has it. In every replay variant the stages WB, DC and EX are guarded
  by the fault of the latch they read: when it is not \<^verbatim>\<open>NONE\<close> the stage body does not
  run, and the \<^verbatim>\<open>common\<close> record of the latch one step upstream is copied into the latch
  the stage reads (DC/WB from EX/DC, EX/DC from RF/EX, RF/EX from IC/RF); the other
  latches, the registers and the bus keep their values. RF is guarded in the same way
  but nothing is copied when it is skipped, and IC always runs. Each replay variant is
  this list of guarded stages run until the first abort; all but
  \<^verbatim>\<open>vr4300_cycle_slow_wb\<close> reset \<^verbatim>\<open>skip_stages\<close> when no stage aborted.
\<close>

theorem C3_squash_rule:
  fixes X :: "'b externals" and s :: "'b vr4300"
  shows
    "vr4300_cycle_slow_wb X s =
       snd (replay_in_order X [Stage_WB, Stage_DC, Stage_EX, Stage_RF, Stage_IC]
         (s\<lparr>pipeline := (pipeline s)\<lparr>exception_history := exception_history (pipeline s) + 1,
              fault_present := fault_present (pipeline s) \<and>
                               exception_history (pipeline s) \<le> 4\<rparr>\<rparr>)) \<and>
     vr4300_cycle_slow_dc X s =
       replay_done (replay_in_order X [Stage_DC, Stage_EX, Stage_RF, Stage_IC] s) \<and>
     vr4300_cycle_slow_ex X s =
       replay_done (replay_in_order X [Stage_EX, Stage_RF, Stage_IC] s) \<and>
     vr4300_cycle_slow_ex_fixdc X s =
       replay_done (replay_in_order X [Stage_EX, Stage_RF, Stage_IC]
         (upd_dcwb (\<lambda>l. l\<lparr>dcwb_result :=
            fixdc_result (request (exdc s)) (exdc_result (exdc s))\<rparr>) s)) \<and>
     vr4300_cycle_slow_rf X s = replay_done (replay_in_order X [Stage_RF, Stage_IC] s) \<and>
     vr4300_cycle_slow_ic X s = replay_done (replay_in_order X [Stage_IC] s) \<and>
     (input_fault g s \<noteq> VR4300_FAULT_NONE \<longrightarrow>
        replay_stage X g s = (0, squash g s) \<and>
        regs (squash g s) = regs s \<and> bus (squash g s) = bus s \<and>
        (g = Stage_WB \<longrightarrow> dcwb (squash g s) = (dcwb s)\<lparr>dcwb_common := exdc_common (exdc s)\<rparr> \<and>
             exdc (squash g s) = exdc s \<and> rfex (squash g s) = rfex s \<and> icrf (squash g s) = icrf s) \<and>
        (g = Stage_DC \<longrightarrow> exdc (squash g s) = (exdc s)\<lparr>exdc_common := rfex_common (rfex s)\<rparr> \<and>
             dcwb (squash g s) = dcwb s \<and> rfex (squash g s) = rfex s \<and> icrf (squash g s) = icrf s) \<and>
        (g = Stage_EX \<longrightarrow> rfex (squash g s) = (rfex s)\<lparr>rfex_common := icrf_common (icrf s)\<rparr> \<and>
             dcwb (squash g s) = dcwb s \<and> exdc (squash g s) = exdc s \<and> icrf (squash g s) = icrf s) \<and>
        (g = Stage_RF \<longrightarrow> squash g s = s))"
proof -
  have sq: "input_fault g s \<noteq> VR4300_FAULT_NONE \<longrightarrow>
        replay_stage X g s = (0, squash g s) \<and>
        regs (squash g s) = regs s \<and> bus (squash g s) = bus s \<and>
        (g = Stage_WB \<longrightarrow> dcwb (squash g s) = (dcwb s)\<lparr>dcwb_common := exdc_common (exdc s)\<rparr> \<and>
             exdc (squash g s) = exdc s \<and> rfex (squash g s) = rfex s \<and> icrf (squash g s) = icrf s) \<and>
        (g = Stage_DC \<longrightarrow> exdc (squash g s) = (exdc s)\<lparr>exdc_common := rfex_common (rfex s)\<rparr> \<and>
             dcwb (squash g s) = dcwb s \<and> rfex (squash g s) = rfex s \<and> icrf (squash g s) = icrf s) \<and>
        (g = Stage_EX \<longrightarrow> rfex (squash g s) = (rfex s)\<lparr>rfex_common := icrf_common (icrf s)\<rparr> \<and>
             dcwb (squash g s) = dcwb s \<and> exdc (squash g s) = exdc s \<and> icrf (squash g s) = icrf s) \<and>
        (g = Stage_RF \<longrightarrow> squash g s = s)"
    by (cases g) (simp_all add: replay_stage_def upd_dcwb_def upd_exdc_def upd_rfex_def)
  from slow_replay [of X s] sq show ?thesis by (intro conjI)
qed

theorem C3_squash_rule_witness:
  "input_fault Stage_EX squash_cpu \<noteq> VR4300_FAULT_NONE \<and>
   replay_stage sample_externals Stage_EX squash_cpu = (0, squash Stage_EX squash_cpu) \<and>
   rfex (squash Stage_EX squash_cpu) =
     (rfex squash_cpu)\<lparr>rfex_common := icrf_common (icrf squash_cpu)\<rparr> \<and>
   exdc (squash Stage_EX squash_cpu) = exdc squash_cpu"
proof -
  have h: "input_fault Stage_EX squash_cpu \<noteq> VR4300_FAULT_NONE"
    by code_simp
  from C3_squash_rule [of sample_externals squash_cpu Stage_EX] h
  show ?thesis by simp
qed

text \<open>
  C3, as the claim has it, fails: with a fault in the RF/EX latch only, the replay tick
  that squashes EX does not bring the fault to the EX/DC latch. After this tick no latch
  carries a fault.
\<close>

theorem C3_fault_not_propagated_counterexample:
  "fault (rfex_common (rfex squash_cpu)) = VR4300_FAULT_LDI \<and>
   fault (exdc_common (exdc squash_cpu)) = VR4300_FAULT_NONE \<and>
   vr4300_cycle sample_externals squash_cpu =
     Some (vr4300_cycle_slow_ex sample_externals squash_cpu) \<and>
   fault (exdc_common (exdc (vr4300_cycle_slow_ex sample_externals squash_cpu))) = VR4300_FAULT_NONE \<and>
   fault (dcwb_common (dcwb (vr4300_cycle_slow_ex sample_externals squash_cpu))) = VR4300_FAULT_NONE \<and>
   fault (rfex_common (rfex (vr4300_cycle_slow_ex sample_externals squash_cpu))) = VR4300_FAULT_NONE \<and>
   fault (icrf_common (icrf (vr4300_cycle_slow_ex sample_externals squash_cpu))) = VR4300_FAULT_NONE"
proof -
  have a: "cycles_to_stall (pipeline squash_cpu) = 0" by code_simp
  have b: "signals squash_cpu AND VR4300_SIGNAL_COLDRESET sample_externals = 0" by code_simp
  have c: "skip_stages (pipeline squash_cpu) = 2" by code_simp
  have d: "vr4300_cycle sample_externals squash_cpu =
     Some (vr4300_cycle_slow_ex sample_externals squash_cpu)"
    using cycle_replay [OF a b, of ] c by (simp add: pipeline_function_lut_def)
  have e1: "fault (rfex_common (rfex squash_cpu)) = VR4300_FAULT_LDI" by code_simp
  have e2: "fault (exdc_common (exdc squash_cpu)) = VR4300_FAULT_NONE" by code_simp
  have e3: "fault (exdc_common (exdc (vr4300_cycle_slow_ex sample_externals squash_cpu))) = VR4300_FAULT_NONE"
    by code_simp
  have e4: "fault (dcwb_common (dcwb (vr4300_cycle_slow_ex sample_externals squash_cpu))) = VR4300_FAULT_NONE"
    by code_simp
  have e5: "fault (rfex_common (rfex (vr4300_cycle_slow_ex sample_externals squash_cpu))) = VR4300_FAULT_NONE"
    by code_simp
  have e6: "fault (icrf_common (icrf (vr4300_cycle_slow_ex sample_externals squash_cpu))) = VR4300_FAULT_NONE"
    by code_simp
  from e1 e2 d e3 e4 e5 e6 show ?thesis by (intro conjI)
qed

text \<open>
  C4, as the code has it. \<^verbatim>\<open>vr4300_cycle_slow_wb\<close> increments \<^verbatim>\<open>exception_history\<close> on
  every call, whether or not the WB latch carries a fault, and clears \<^verbatim>\<open>fault_present\<close>
  in the call that finds the counter greater than 4 on entry. Let the fault helpers and
  the opcode handlers be such that they never change \<^verbatim>\<open>exception_history\<close>,
  \<^verbatim>\<open>cycles_to_stall\<close>, \<^verbatim>\<open>skip_stages\<close> or \<^verbatim>\<open>fault_present\<close>. Then a tick entered with
  \<^verbatim>\<open>cycles_to_stall == 0\<close>, \<^verbatim>\<open>skip_stages == 0\<close> and \<^verbatim>\<open>fault_present\<close> set adds one to the
  counter, keeps \<^verbatim>\<open>cycles_to_stall == 0\<close> and \<^verbatim>\<open>skip_stages == 0\<close>, and leaves
  \<^verbatim>\<open>fault_present\<close> set exactly when the counter was at most 4 on entry. Started in
  addition with the counter at 0, the processor has \<^verbatim>\<open>fault_present\<close> set after each of
  the first five ticks and cleared after the sixth, with \<^verbatim>\<open>cycles_to_stall == 0\<close> and
  \<^verbatim>\<open>skip_stages == 0\<close>, so that the seventh tick runs the fast path.
\<close>

theorem C4_fault_recovery_exit:
  fixes X :: "'b externals" and s :: "'b vr4300"
  shows
    "vr4300_cycle_slow_wb X s =
       snd (replay_in_order X [Stage_WB, Stage_DC, Stage_EX, Stage_RF, Stage_IC]
         (s\<lparr>pipeline := (pipeline s)\<lparr>exception_history := exception_history (pipeline s) + 1,
              fault_present := fault_present (pipeline s) \<and>
                               exception_history (pipeline s) \<le> 4\<rparr>\<rparr>)) \<and>
     (control_frame X \<and> cycles_to_stall (pipeline s) = 0 \<and> skip_stages (pipeline s) = 0 \<and>
      fault_present (pipeline s) \<longrightarrow>
        (\<exists>s'. vr4300_cycle X s = Some s' \<and>
           exception_history (pipeline s') = exception_history (pipeline s) + 1 \<and>
           fault_present (pipeline s') = (exception_history (pipeline s) \<le> 4) \<and>
           cycles_to_stall (pipeline s') = 0 \<and> skip_stages (pipeline s') = 0) \<and>
        (exception_history (pipeline s) = 0 \<longrightarrow>
           (\<forall>n. n \<le> 5 \<longrightarrow> (\<exists>s'. ticks X n s = Some s' \<and> fault_present (pipeline s'))) \<and>
           (\<exists>s5 s6. ticks X 5 s = Some s5 \<and> fault_present (pipeline s5) \<and>
              ticks X 6 s = Some s6 \<and> \<not> fault_present (pipeline s6) \<and>
              exception_history (pipeline s6) = 6 \<and>
              cycles_to_stall (pipeline s6) = 0 \<and> skip_stages (pipeline s6) = 0 \<and>
              vr4300_cycle X s6 =
                Some (snd (snd (run_in_order X
                  [Stage_WB, Stage_DC, Stage_EX, Stage_RF, Stage_IC]
                  (if signals s6 AND VR4300_SIGNAL_COLDRESET X \<noteq> 0
                   then VR4300_RST X s6 else s6)))))))"
proof (intro conjI impI allI)
  show "vr4300_cycle_slow_wb X s =
       snd (replay_in_order X [Stage_WB, Stage_DC, Stage_EX, Stage_RF, Stage_IC]
         (s\<lparr>pipeline := (pipeline s)\<lparr>exception_history := exception_history (pipeline s) + 1,
              fault_present := fault_present (pipeline s) \<and>
                               exception_history (pipeline s) \<le> 4\<rparr>\<rparr>))"
    by (rule slow_replay)
next
  assume a: "control_frame X \<and> cycles_to_stall (pipeline s) = 0 \<and>
             skip_stages (pipeline s) = 0 \<and> fault_present (pipeline s)"
  then obtain s' where "vr4300_cycle X s = Some s'"
    "control s' = (exception_history (pipeline s) + 1, 0, 0, exception_history (pipeline s) \<le> 4)"
    using slow_tick [of X s] by blast
  then show "\<exists>s'. vr4300_cycle X s = Some s' \<and>
           exception_history (pipeline s') = exception_history (pipeline s) + 1 \<and>
           fault_present (pipeline s') = (exception_history (pipeline s) \<le> 4) \<and>
           cycles_to_stall (pipeline s') = 0 \<and> skip_stages (pipeline s') = 0"
    by (auto simp add: control_def)
next
  fix n :: nat
  assume a: "control_frame X \<and> cycles_to_stall (pipeline s) = 0 \<and>
             skip_stages (pipeline s) = 0 \<and> fault_present (pipeline s)"
    and z: "exception_history (pipeline s) = 0"
    and n: "n \<le> 5"
  then have c: "control s = (0, 0, 0, True)" by (simp add: control_def)
  from a have X: "control_frame X" by simp
  from n have "unat (0 :: u32) + n \<le> 5" by simp
  from slow_ticks_from [OF X c this] obtain s' where
    "ticks X n s = Some s'" "control s' = (0 + of_nat n, 0, 0, True)"
    by blast
  then show "\<exists>s'. ticks X n s = Some s' \<and> fault_present (pipeline s')"
    by (auto simp add: control_def)
next
  assume a: "control_frame X \<and> cycles_to_stall (pipeline s) = 0 \<and>
             skip_stages (pipeline s) = 0 \<and> fault_present (pipeline s)"
    and z: "exception_history (pipeline s) = 0"
  then have c: "control s = (0, 0, 0, True)" by (simp add: control_def)
  from a have X: "control_frame X" by simp
  from sixth_slow_tick [OF X c] obtain s5 s6 where
    t: "ticks X 5 s = Some s5" "fault_present (pipeline s5)"
       "vr4300_cycle X s5 = Some s6" "\<not> fault_present (pipeline s6)"
       "exception_history (pipeline s6) = 6"
       "cycles_to_stall (pipeline s6) = 0" "skip_stages (pipeline s6) = 0"
    by blast
  have "ticks X 6 s = ticks X (Suc 5) s" by simp
  also have "\<dots> = Some s6" using t(1) t(3) by (simp only: ticks_Suc_end option.case)
  finally have six: "ticks X 6 s = Some s6" .
  note fast = fast_path_after_clear [OF X t(6) t(7) t(4)]
  from t six fast
  show "\<exists>s5 s6. ticks X 5 s = Some s5 \<and> fault_present (pipeline s5) \<and>
              ticks X 6 s = Some s6 \<and> \<not> fault_present (pipeline s6) \<and>
              exception_history (pipeline s6) = 6 \<and>
              cycles_to_stall (pipeline s6) = 0 \<and> skip_stages (pipeline s6) = 0 \<and>
              vr4300_cycle X s6 =
                Some (snd (snd (run_in_order X
                  [Stage_WB, Stage_DC, Stage_EX, Stage_RF, Stage_IC]
                  (if signals s6 AND VR4300_SIGNAL_COLDRESET X \<noteq> 0
                   then VR4300_RST X s6 else s6))))"
    by blast
qed

theorem C4_fault_recovery_exit_witness:
  "control_frame sample_externals \<and>
   cycles_to_stall (pipeline faulted_cpu) = 0 \<and>
   skip_stages (pipeline faulted_cpu) = 0 \<and>
   fault_present (pipeline faulted_cpu) \<and>
   exception_history (pipeline faulted_cpu) = 0 \<and>
   (\<exists>s5 s6. ticks sample_externals 5 faulted_cpu = Some s5 \<and> fault_present (pipeline s5) \<and>
      ticks sample_externals 6 faulted_cpu = Some s6 \<and> \<not> fault_present (pipeline s6) \<and>
      cycles_to_stall (pipeline s6) = 0 \<and> skip_stages (pipeline s6) = 0)"
proof -
  have x: "control_frame sample_externals"
    by (simp add: control_frame_def sample_externals_def)
  have a: "cycles_to_stall (pipeline faulted_cpu) = 0" by code_simp
  have b: "skip_stages (pipeline faulted_cpu) = 0" by code_simp
  have c: "fault_present (pipeline faulted_cpu)" by code_simp
  have d: "exception_history (pipeline faulted_cpu) = 0" by code_simp
  from C4_fault_recovery_exit [of sample_externals faulted_cpu] x a b c d
  have e: "\<exists>s5 s6. ticks sample_externals 5 faulted_cpu = Some s5 \<and> fault_present (pipeline s5) \<and>
      ticks sample_externals 6 faulted_cpu = Some s6 \<and> \<not> fault_present (pipeline s6) \<and>
      cycles_to_stall (pipeline s6) = 0 \<and> skip_stages (pipeline s6) = 0"
    by blast
  from x a b c d e show ?thesis by (intro conjI)
qed

text \<open>
  C4, as the claim has it, fails: after four consecutive ticks, each of which found the
  WB latch free of faults, \<^verbatim>\<open>fault_present\<close> is still set and the counter stands at 4.
\<close>

theorem C4_not_after_four_counterexample:
  "exception_history (pipeline faulted_cpu) = 0 \<and>
   fault_present (pipeline faulted_cpu) \<and>
   fault (dcwb_common (dcwb faulted_cpu)) = VR4300_FAULT_NONE \<and>
   fault (dcwb_common (dcwb (the (ticks sample_externals 1 faulted_cpu)))) = VR4300_FAULT_NONE \<and>
   fault (dcwb_common (dcwb (the (ticks sample_externals 2 faulted_cpu)))) = VR4300_FAULT_NONE \<and>
   fault (dcwb_common (dcwb (the (ticks sample_externals 3 faulted_cpu)))) = VR4300_FAULT_NONE \<and>
   ticks sample_externals 4 faulted_cpu \<noteq> None \<and>
   exception_history (pipeline (the (ticks sample_externals 4 faulted_cpu))) = 4 \<and>
   fault_present (pipeline (the (ticks sample_externals 4 faulted_cpu)))"
  by code_simp

text \<open>
  C5. If \<^verbatim>\<open>cycles_to_stall > 0\<close> when \<^verbatim>\<open>vr4300_cycle\<close> is called, the call decrements
  \<^verbatim>\<open>cycles_to_stall\<close> by exactly one and returns: no stage runs, no reset fault is raised
  whatever the signals are, and the registers, the latches, \<^verbatim>\<open>skip_stages\<close> and
  \<^verbatim>\<open>fault_present\<close> keep their values.
\<close>

theorem C5_stall_precedes_reset:
  fixes X :: "'b externals" and s :: "'b vr4300"
  assumes "0 < cycles_to_stall (pipeline s)"
  shows "vr4300_cycle X s =
           Some (s\<lparr>pipeline := (pipeline s)\<lparr>cycles_to_stall := cycles_to_stall (pipeline s) - 1\<rparr>\<rparr>) \<and>
         (\<forall>s'. vr4300_cycle X s = Some s' \<longrightarrow>
            unat (cycles_to_stall (pipeline s')) + 1 = unat (cycles_to_stall (pipeline s)) \<and>
            regs s' = regs s \<and> signals s' = signals s \<and> bus s' = bus s \<and>
            dcwb s' = dcwb s \<and> exdc s' = exdc s \<and> rfex s' = rfex s \<and> icrf s' = icrf s \<and>
            skip_stages (pipeline s') = skip_stages (pipeline s) \<and>
            fault_present (pipeline s') = fault_present (pipeline s) \<and>
            exception_history (pipeline s') = exception_history (pipeline s))"
proof -
  from assms have nz: "cycles_to_stall (pipeline s) \<noteq> 0" by auto
  then have "0 < unat (cycles_to_stall (pipeline s))" by (simp add: unat_gt_0)
  with nz have "unat (cycles_to_stall (pipeline s) - 1) + 1 = unat (cycles_to_stall (pipeline s))"
    by (simp add: unat_minus_one)
  with assms show ?thesis by (simp add: vr4300_cycle_def)
qed

theorem C5_stall_precedes_reset_witness:
  "0 < cycles_to_stall (pipeline stalled_cpu) \<and>
   signals stalled_cpu AND VR4300_SIGNAL_COLDRESET sample_externals \<noteq> 0 \<and>
   vr4300_cycle sample_externals stalled_cpu =
     Some (stalled_cpu\<lparr>pipeline := (pipeline stalled_cpu)\<lparr>cycles_to_stall := 2\<rparr>\<rparr>)"
proof -
  have h: "0 < cycles_to_stall (pipeline stalled_cpu)"
    by (simp add: stalled_cpu_def)
  have r: "signals stalled_cpu AND VR4300_SIGNAL_COLDRESET sample_externals \<noteq> 0"
    by (simp add: stalled_cpu_def sample_externals_def)
  have c: "cycles_to_stall (pipeline stalled_cpu) - 1 = 2"
    by (simp add: stalled_cpu_def)
  have e: "vr4300_cycle sample_externals stalled_cpu =
     Some (stalled_cpu\<lparr>pipeline := (pipeline stalled_cpu)\<lparr>cycles_to_stall :=
       cycles_to_stall (pipeline stalled_cpu) - 1\<rparr>\<rparr>)"
    using C5_stall_precedes_reset [OF h, of sample_externals] by (rule conjunct1)
  from h r e [unfolded c] show ?thesis by (intro conjI)
qed

text \<open>
  C6. \<^verbatim>\<open>vr4300_ic_stage\<close> takes the fetch address to be outside the current segment
  exactly when the unsigned difference \<^verbatim>\<open>pc - segment.start\<close> exceeds \<^verbatim>\<open>segment.length\<close>,
  and only then consults the segment map. On a miss it hands the state to \<^verbatim>\<open>VR4300_IADE\<close>
  with \<^verbatim>\<open>icrf_latch.pc\<close> not advanced and returns abort. Otherwise it clears
  \<^verbatim>\<open>icrf_latch.common.fault\<close>, advances \<^verbatim>\<open>icrf_latch.pc\<close> by 4 and returns continue, with
  the segment found by the lookup installed when there was one.
\<close>

theorem C6_ic_segment_check:
  fixes X :: "'b externals" and s :: "'b vr4300"
  shows
    "(if outside_segment (icrf_segment (icrf s)) (icrf_pc (icrf s)) \<and>
         get_segment X (icrf_pc (icrf s)) (ucast (regs s (VR4300_CP0_REGISTER_STATUS X))) = None
      then \<exists>s'. vr4300_ic_stage X s = (1, VR4300_IADE X s') \<and>
             icrf s' = (icrf s)\<lparr>icrf_common := (icrf_common (icrf s))\<lparr>pc := icrf_pc (icrf s)\<rparr>\<rparr>
      else \<exists>s'. vr4300_ic_stage X s = (0, s') \<and>
             fault (icrf_common (icrf s')) = VR4300_FAULT_NONE \<and>
             pc (icrf_common (icrf s')) = icrf_pc (icrf s) \<and>
             icrf_pc (icrf s') = icrf_pc (icrf s) + 4 \<and>
             (if outside_segment (icrf_segment (icrf s)) (icrf_pc (icrf s))
              then get_segment X (icrf_pc (icrf s)) (ucast (regs s (VR4300_CP0_REGISTER_STATUS X)))
                     = Some (icrf_segment (icrf s'))
              else icrf_segment (icrf s') = icrf_segment (icrf s))) \<and>
     (\<not> outside_segment (icrf_segment (icrf s)) (icrf_pc (icrf s)) \<longrightarrow>
        (\<forall>g. vr4300_ic_stage (X\<lparr>get_segment := g\<rparr>) s = vr4300_ic_stage X s))"
  by (auto simp add: vr4300_ic_stage_def outside_segment_word Let_def upd_icrf_def upd_rfex_def
      split: option.splits)

theorem C6_ic_segment_check_witness:
  "outside_segment (icrf_segment (icrf miss_cpu)) (icrf_pc (icrf miss_cpu)) \<and>
   get_segment sample_externals (icrf_pc (icrf miss_cpu))
     (ucast (regs miss_cpu (VR4300_CP0_REGISTER_STATUS sample_externals))) = None \<and>
   (\<exists>s'. vr4300_ic_stage sample_externals miss_cpu = (1, VR4300_IADE sample_externals s') \<and>
      icrf_pc (icrf s') = 0xFFFFFFFF00000000) \<and>
   \<not> outside_segment (icrf_segment (icrf sample_cpu)) (icrf_pc (icrf sample_cpu)) \<and>
   (\<exists>s'. vr4300_ic_stage sample_externals sample_cpu = (0, s') \<and>
      fault (icrf_common (icrf s')) = VR4300_FAULT_NONE \<and>
      icrf_pc (icrf s') = 0xFFFFFFFF80000004)"
proof -
  have a: "outside_segment (icrf_segment (icrf miss_cpu)) (icrf_pc (icrf miss_cpu))"
    by (simp add: outside_segment_word miss_cpu_def sample_cpu_def upd_icrf_def
        vr4300_pipeline_init_def sample_externals_def kseg0_def)
  have b: "get_segment sample_externals (icrf_pc (icrf miss_cpu))
     (ucast (regs miss_cpu (VR4300_CP0_REGISTER_STATUS sample_externals))) = None"
    by (simp add: miss_cpu_def sample_cpu_def upd_icrf_def
        vr4300_pipeline_init_def sample_externals_def kseg0_def)
  have p: "icrf_pc (icrf miss_cpu) = 0xFFFFFFFF00000000"
    by (simp add: miss_cpu_def upd_icrf_def)
  have c: "\<not> outside_segment (icrf_segment (icrf sample_cpu)) (icrf_pc (icrf sample_cpu))"
    by (simp add: outside_segment_word sample_cpu_def upd_icrf_def
        vr4300_pipeline_init_def sample_externals_def kseg0_def)
  have q: "icrf_pc (icrf sample_cpu) = 0xFFFFFFFF80000000"
    by (simp add: sample_cpu_def upd_icrf_def)
  from C6_ic_segment_check [of miss_cpu sample_externals] a b p
  have m: "\<exists>s'. vr4300_ic_stage sample_externals miss_cpu = (1, VR4300_IADE sample_externals s') \<and>
      icrf_pc (icrf s') = 0xFFFFFFFF00000000"
    by auto
  from C6_ic_segment_check [of sample_cpu sample_externals] c q
  have h: "\<exists>s'. vr4300_ic_stage sample_externals sample_cpu = (0, s') \<and>
      fault (icrf_common (icrf s')) = VR4300_FAULT_NONE \<and>
      icrf_pc (icrf s') = 0xFFFFFFFF80000004"
    by auto
  from a b m c h show ?thesis by blast
qed

text \<open>
  C7. In \<^verbatim>\<open>vr4300_ex_stage\<close>, when the EX/DC latch holds no pending bus request the
  \<^verbatim>\<open>NEEDRS\<close> and \<^verbatim>\<open>NEEDRT\<close> bits are cleared before the interlock test: the stage returns
  continue, whatever \<^verbatim>\<open>VR4300_LDI\<close> is, after the forwarding block and the opcode handler.
  When a request is pending and the instruction needs \<^verbatim>\<open>rs\<close> (or \<^verbatim>\<open>rt\<close>) and that index
  equals \<^verbatim>\<open>dcwb_latch.dest\<close>, the stage hands the state to \<^verbatim>\<open>VR4300_LDI\<close> with nothing but
  \<^verbatim>\<open>exdc_latch.common\<close> written and returns abort: no forwarding, no handler.
\<close>

theorem C7_load_use_interlock:
  fixes X :: "'b externals" and s :: "'b vr4300"
  shows
    "(req_type (request (exdc s)) = VR4300_BUS_REQUEST_NONE \<longrightarrow>
        (\<forall>f. vr4300_ex_stage (X\<lparr>VR4300_LDI := f\<rparr>) s = vr4300_ex_stage X s) \<and>
        vr4300_ex_stage X s =
          (let s1 = upd_exdc (\<lambda>l. l\<lparr>exdc_common := rfex_common (rfex s)\<rparr>) s;
               fw = ex_forward s1 (GET_RS X (iw (rfex s))) (GET_RT X (iw (rfex s)));
               s2 = upd_exdc (\<lambda>l. l\<lparr>exdc_dest := VR4300_REGISTER_R0,
                      request := (request l)\<lparr>req_type := VR4300_BUS_REQUEST_NONE\<rparr>\<rparr>) (snd (snd fw))
           in (0, vr4300_function_table X (op_id (opcode (rfex s))) s2 (fst fw) (fst (snd fw))))) \<and>
     (req_type (request (exdc s)) \<noteq> VR4300_BUS_REQUEST_NONE \<and>
      ((op_flags (opcode (rfex s)) AND OPCODE_INFO_NEEDRS X \<noteq> 0 \<and>
          GET_RS X (iw (rfex s)) = dcwb_dest (dcwb s)) \<or>
       (op_flags (opcode (rfex s)) AND OPCODE_INFO_NEEDRT X \<noteq> 0 \<and>
          GET_RT X (iw (rfex s)) = dcwb_dest (dcwb s))) \<longrightarrow>
        vr4300_ex_stage X s =
          (1, VR4300_LDI X (upd_exdc (\<lambda>l. l\<lparr>exdc_common := rfex_common (rfex s)\<rparr>) s)))"
proof (intro conjI impI allI)
  fix f
  assume none: "req_type (request (exdc s)) = VR4300_BUS_REQUEST_NONE"
  have a: "fst (vr4300_ex_stage X s) = 0"
    using ex_stage_aborts_iff [of X s] none by simp
  have b: "fst (vr4300_ex_stage (X\<lparr>VR4300_LDI := f\<rparr>) s) = 0"
    using ex_stage_aborts_iff [of "X\<lparr>VR4300_LDI := f\<rparr>" s] none by simp
  show "vr4300_ex_stage (X\<lparr>VR4300_LDI := f\<rparr>) s = vr4300_ex_stage X s"
    by (simp add: ex_stage_continues [OF a] ex_stage_continues [OF b])
next
  assume none: "req_type (request (exdc s)) = VR4300_BUS_REQUEST_NONE"
  have a: "fst (vr4300_ex_stage X s) = 0"
    using ex_stage_aborts_iff [of X s] none by simp
  then show "vr4300_ex_stage X s =
          (let s1 = upd_exdc (\<lambda>l. l\<lparr>exdc_common := rfex_common (rfex s)\<rparr>) s;
               fw = ex_forward s1 (GET_RS X (iw (rfex s))) (GET_RT X (iw (rfex s)));
               s2 = upd_exdc (\<lambda>l. l\<lparr>exdc_dest := VR4300_REGISTER_R0,
                      request := (request l)\<lparr>req_type := VR4300_BUS_REQUEST_NONE\<rparr>\<rparr>) (snd (snd fw))
           in (0, vr4300_function_table X (op_id (opcode (rfex s))) s2 (fst fw) (fst (snd fw))))"
    by (rule ex_stage_continues)
next
  assume "req_type (request (exdc s)) \<noteq> VR4300_BUS_REQUEST_NONE \<and>
      ((op_flags (opcode (rfex s)) AND OPCODE_INFO_NEEDRS X \<noteq> 0 \<and>
          GET_RS X (iw (rfex s)) = dcwb_dest (dcwb s)) \<or>
       (op_flags (opcode (rfex s)) AND OPCODE_INFO_NEEDRT X \<noteq> 0 \<and>
          GET_RT X (iw (rfex s)) = dcwb_dest (dcwb s)))"
  then show "vr4300_ex_stage X s =
          (1, VR4300_LDI X (upd_exdc (\<lambda>l. l\<lparr>exdc_common := rfex_common (rfex s)\<rparr>) s))"
    using ex_stage_interlock [of s X] by blast
qed

theorem C7_load_use_interlock_witness:
  "req_type (request (exdc load_use_cpu)) \<noteq> VR4300_BUS_REQUEST_NONE \<and>
   op_flags (opcode (rfex load_use_cpu)) AND OPCODE_INFO_NEEDRS sample_externals \<noteq> 0 \<and>
   GET_RS sample_externals (iw (rfex load_use_cpu)) = dcwb_dest (dcwb load_use_cpu) \<and>
   vr4300_ex_stage sample_externals load_use_cpu =
     (1, VR4300_LDI sample_externals
           (upd_exdc (\<lambda>l. l\<lparr>exdc_common := rfex_common (rfex load_use_cpu)\<rparr>) load_use_cpu)) \<and>
   req_type (request (exdc sample_cpu)) = VR4300_BUS_REQUEST_NONE \<and>
   fst (vr4300_ex_stage sample_externals sample_cpu) = 0"
proof -
  have h1: "req_type (request (exdc load_use_cpu)) \<noteq> VR4300_BUS_REQUEST_NONE"
    by code_simp
  have h2: "op_flags (opcode (rfex load_use_cpu)) AND OPCODE_INFO_NEEDRS sample_externals \<noteq> 0"
    by code_simp
  have h3: "GET_RS sample_externals (iw (rfex load_use_cpu)) = dcwb_dest (dcwb load_use_cpu)"
    by code_simp
  have h4: "req_type (request (exdc sample_cpu)) = VR4300_BUS_REQUEST_NONE"
    by code_simp
  note inst = C7_load_use_interlock [of load_use_cpu sample_externals]
  have c1: "vr4300_ex_stage sample_externals load_use_cpu =
     (1, VR4300_LDI sample_externals
           (upd_exdc (\<lambda>l. l\<lparr>exdc_common := rfex_common (rfex load_use_cpu)\<rparr>) load_use_cpu))"
    using inst h1 h2 h3 by blast
  have c2: "fst (vr4300_ex_stage sample_externals sample_cpu) = 0"
    using C7_load_use_interlock [of sample_cpu sample_externals] h4
    by (simp add: Let_def)
  from h1 h2 h3 c1 h4 c2 show ?thesis by (intro conjI)
qed

text \<open>
  C8. The value that \<^verbatim>\<open>vr4300_cycle_slow_ex_fixdc\<close> stores to \<^verbatim>\<open>dcwb_latch.result\<close>,
  against the formula \<^verbatim>\<open>(sdata & mask) | data\<close> with \<^verbatim>\<open>maskshift = size * 8\<close> and
  \<^verbatim>\<open>datashift = (8 - size) * 8\<close>. For \<^verbatim>\<open>size == 2\<close>, \<^verbatim>\<open>word == 0x00008000\<close> and an all-ones
  \<^verbatim>\<open>exdc_latch.result\<close> both give \<^verbatim>\<open>0xFFFFFFFFFFFF8000\<close>. For \<^verbatim>\<open>size == 8\<close>, word
  \<^verbatim>\<open>0x80000000\<close> and the same mask, the formula clears all 64 bits of the mask and gives
  the zero-extended word \<^verbatim>\<open>0x0000000080000000\<close>, while the code, whose shift by 64 leaves
  the mask as it is, stores \<^verbatim>\<open>0xFFFFFFFF80000000\<close>.
\<close>

theorem C8_size_eight_divergence:
  "fixdc_result halfword_request (- 1) = 0xFFFFFFFFFFFF8000 \<and>
   fixup_formula halfword_request (- 1) = 0xFFFFFFFFFFFF8000 \<and>
   req_size doubleword_request = 8 \<and>
   fixup_formula doubleword_request (- 1) = 0x0000000080000000 \<and>
   fixdc_result doubleword_request (- 1) = 0xFFFFFFFF80000000"
  by code_simp

text \<open>
  C9. The interlock test does not set register 0 apart. With a bus request pending in
  the EX/DC latch, \<^verbatim>\<open>dcwb_latch.dest == 0\<close>, and an opcode that needs \<^verbatim>\<open>rs\<close> with an
  \<^verbatim>\<open>rs\<close> field of 0 (or needs \<^verbatim>\<open>rt\<close> with an \<^verbatim>\<open>rt\<close> field of 0), \<^verbatim>\<open>vr4300_ex_stage\<close> calls
  \<^verbatim>\<open>VR4300_LDI\<close> and returns abort.
\<close>

theorem C9_interlock_on_register_zero:
  fixes X :: "'b externals" and s :: "'b vr4300"
  assumes "req_type (request (exdc s)) \<noteq> VR4300_BUS_REQUEST_NONE"
      and "dcwb_dest (dcwb s) = VR4300_REGISTER_R0"
      and "(op_flags (opcode (rfex s)) AND OPCODE_INFO_NEEDRS X \<noteq> 0 \<and>
              GET_RS X (iw (rfex s)) = VR4300_REGISTER_R0) \<or>
           (op_flags (opcode (rfex s)) AND OPCODE_INFO_NEEDRT X \<noteq> 0 \<and>
              GET_RT X (iw (rfex s)) = VR4300_REGISTER_R0)"
  shows "vr4300_ex_stage X s =
           (1, VR4300_LDI X (upd_exdc (\<lambda>l. l\<lparr>exdc_common := rfex_common (rfex s)\<rparr>) s))"
  using assms ex_stage_interlock [of s X] by simp

theorem C9_interlock_on_register_zero_witness:
  "req_type (request (exdc r0_use_cpu)) \<noteq> VR4300_BUS_REQUEST_NONE \<and>
   dcwb_dest (dcwb r0_use_cpu) = VR4300_REGISTER_R0 \<and>
   op_flags (opcode (rfex r0_use_cpu)) AND OPCODE_INFO_NEEDRS sample_externals \<noteq> 0 \<and>
   GET_RS sample_externals (iw (rfex r0_use_cpu)) = VR4300_REGISTER_R0 \<and>
   regs r0_use_cpu VR4300_REGISTER_R0 = 0 \<and>
   vr4300_ex_stage sample_externals r0_use_cpu =
     (1, VR4300_LDI sample_externals
           (upd_exdc (\<lambda>l. l\<lparr>exdc_common := rfex_common (rfex r0_use_cpu)\<rparr>) r0_use_cpu))"
proof -
  have h1: "req_type (request (exdc r0_use_cpu)) \<noteq> VR4300_BUS_REQUEST_NONE"
    by code_simp
  have h2: "dcwb_dest (dcwb r0_use_cpu) = VR4300_REGISTER_R0"
    by code_simp
  have h3: "op_flags (opcode (rfex r0_use_cpu)) AND OPCODE_INFO_NEEDRS sample_externals \<noteq> 0"
    by code_simp
  have h4: "GET_RS sample_externals (iw (rfex r0_use_cpu)) = VR4300_REGISTER_R0"
    by code_simp
  have h5: "regs r0_use_cpu VR4300_REGISTER_R0 = 0"
    by code_simp
  from h3 h4 have h34:
    "(op_flags (opcode (rfex r0_use_cpu)) AND OPCODE_INFO_NEEDRS sample_externals \<noteq> 0 \<and>
        GET_RS sample_externals (iw (rfex r0_use_cpu)) = VR4300_REGISTER_R0) \<or>
     (op_flags (opcode (rfex r0_use_cpu)) AND OPCODE_INFO_NEEDRT sample_externals \<noteq> 0 \<and>
        GET_RT sample_externals (iw (rfex r0_use_cpu)) = VR4300_REGISTER_R0)"
    by blast
  from h1 h2 h3 h4 h5 C9_interlock_on_register_zero [OF h1 h2 h34] show ?thesis
    by (intro conjI)
qed

text \<open>
  C10. An abort of \<^verbatim>\<open>vr4300_dc_stage\<close> is not atomic. The stage returns abort only with a
  request pending, either through \<^verbatim>\<open>VR4300_DADE\<close> (no segment for the address) or through
  \<^verbatim>\<open>VR4300_DCB\<close> (a read). In both cases the state handed to the fault helper already has
  \<^verbatim>\<open>dcwb_latch.common\<close>, \<^verbatim>\<open>result\<close> and \<^verbatim>\<open>dest\<close> copied from the EX/DC latch; on the read
  path it also has the resolved segment in \<^verbatim>\<open>exdc_latch.segment\<close> and \<^verbatim>\<open>segment.offset\<close>
  subtracted from \<^verbatim>\<open>exdc_latch.request.address\<close>.
\<close>

theorem C10_dc_abort_not_atomic:
  fixes X :: "'b externals" and s :: "'b vr4300"
  assumes "fst (vr4300_dc_stage X s) \<noteq> 0"
  shows "let copied = upd_dcwb (\<lambda>l. l\<lparr>dcwb_common := exdc_common (exdc s),
                                       dcwb_result := exdc_result (exdc s),
                                       dcwb_dest := exdc_dest (exdc s)\<rparr>) s;
             address = req_address (request (exdc s));
             resolved = (if outside_segment (exdc_segment (exdc s)) address
                         then get_segment X address (ucast (regs s (VR4300_CP0_REGISTER_STATUS X)))
                         else Some (exdc_segment (exdc s)))
         in req_type (request (exdc s)) \<noteq> VR4300_BUS_REQUEST_NONE \<and>
            (case resolved of
               None \<Rightarrow> vr4300_dc_stage X s = (1, VR4300_DADE X copied)
             | Some seg \<Rightarrow>
                 req_type (request (exdc s)) = VR4300_BUS_REQUEST_READ \<and>
                 vr4300_dc_stage X s =
                   (1, VR4300_DCB X (upd_exdc (\<lambda>l. l\<lparr>exdc_segment := seg,
                          request := (request l)\<lparr>req_address := address - seg_offset seg\<rparr>\<rparr>) copied)))"
  using assms
  by (auto simp add: vr4300_dc_stage_def Let_def upd_exdc_def upd_dcwb_def outside_segment_word
      split: option.splits if_splits)

theorem C10_dc_abort_not_atomic_witness:
  "fst (vr4300_dc_stage sample_externals read_cpu) \<noteq> 0 \<and>
   fault (dcwb_common (dcwb (snd (vr4300_dc_stage sample_externals read_cpu)))) = VR4300_FAULT_DCB \<and>
   dcwb_result (dcwb (snd (vr4300_dc_stage sample_externals read_cpu))) = 0x55 \<and>
   dcwb_dest (dcwb (snd (vr4300_dc_stage sample_externals read_cpu))) = 7 \<and>
   exdc_segment (exdc (snd (vr4300_dc_stage sample_externals read_cpu))) = kseg0 \<and>
   req_address (request (exdc (snd (vr4300_dc_stage sample_externals read_cpu)))) = 0x100 \<and>
   fst (vr4300_dc_stage sample_externals unmapped_read_cpu) \<noteq> 0 \<and>
   vr4300_dc_stage sample_externals unmapped_read_cpu =
     (1, VR4300_DADE sample_externals
           (upd_dcwb (\<lambda>l. l\<lparr>dcwb_common := exdc_common (exdc unmapped_read_cpu),
                            dcwb_result := exdc_result (exdc unmapped_read_cpu),
                            dcwb_dest := exdc_dest (exdc unmapped_read_cpu)\<rparr>) unmapped_read_cpu))"
proof -
  have h1: "fst (vr4300_dc_stage sample_externals read_cpu) \<noteq> 0"
    by code_simp
  have e1: "fault (dcwb_common (dcwb (snd (vr4300_dc_stage sample_externals read_cpu)))) = VR4300_FAULT_DCB"
    by code_simp
  have e2: "dcwb_result (dcwb (snd (vr4300_dc_stage sample_externals read_cpu))) = 0x55"
    by code_simp
  have e3: "dcwb_dest (dcwb (snd (vr4300_dc_stage sample_externals read_cpu))) = 7"
    by code_simp
  have e4: "exdc_segment (exdc (snd (vr4300_dc_stage sample_externals read_cpu))) = kseg0"
    by code_simp
  have e5: "req_address (request (exdc (snd (vr4300_dc_stage sample_externals read_cpu)))) = 0x100"
    by code_simp
  have h2: "fst (vr4300_dc_stage sample_externals unmapped_read_cpu) \<noteq> 0"
    by code_simp
  have o: "outside_segment (exdc_segment (exdc unmapped_read_cpu))
             (req_address (request (exdc unmapped_read_cpu)))"
    unfolding outside_segment_word by code_simp
  have g: "get_segment sample_externals (req_address (request (exdc unmapped_read_cpu)))
             (ucast (regs unmapped_read_cpu (VR4300_CP0_REGISTER_STATUS sample_externals))) = None"
    by code_simp
  have c: "vr4300_dc_stage sample_externals unmapped_read_cpu =
     (1, VR4300_DADE sample_externals
           (upd_dcwb (\<lambda>l. l\<lparr>dcwb_common := exdc_common (exdc unmapped_read_cpu),
                            dcwb_result := exdc_result (exdc unmapped_read_cpu),
                            dcwb_dest := exdc_dest (exdc unmapped_read_cpu)\<rparr>) unmapped_read_cpu))"
    using C10_dc_abort_not_atomic [OF h2] o g by (simp add: Let_def)
  from h1 e1 e2 e3 e4 e5 h2 c show ?thesis by (intro conjI)
qed

end
